theory Spec2Isabelle
  imports Complex_Main "HOL-Library.Sublist"
begin

section \<open>Strings as the scripts use them\<close>

text \<open>
  JavaScript strings are modelled as \<^typ>\<open>string\<close>. \<open>str_includes line s\<close> is
  \<^verbatim>\<open>line.includes(s)\<close>: the search string occurs somewhere in the line.
\<close>

fun str_includes :: "string \<Rightarrow> string \<Rightarrow> bool" where
  "str_includes [] searchString = (searchString = [])"
| "str_includes (c # cs) searchString =
     (prefix searchString (c # cs) \<or> str_includes cs searchString)"

text \<open>\<^verbatim>\<open>content.split('\n')\<close>: always at least one piece.\<close>

fun split_lines :: "string \<Rightarrow> string list" where
  "split_lines [] = [[]]"
| "split_lines (c # cs) =
     (if c = CHR 0x0A then [] # split_lines cs
      else (case split_lines cs of [] \<Rightarrow> [[c]] | l # ls \<Rightarrow> (c # l) # ls))"

text \<open>
  The two regular expressions of the scripts have one shape: a keyword, an opening
  quote, a non-empty greedy run of non-quote characters (the capture group) and a
  closing quote. Since the run is followed by a quote class that is the complement of
  the run's class, only the maximal run can match, so no backtracking is needed.
  \<open>match_here\<close> matches at the start of the string and \<open>regex_match\<close> tries every
  start from the left, as \<^verbatim>\<open>String.prototype.match\<close> does, returning group 1.
\<close>

definition match_here :: "string \<Rightarrow> (char \<Rightarrow> bool) \<Rightarrow> string \<Rightarrow> string option" where
  "match_here key quote s =
     (if prefix key s then
        (case drop (length key) s of
           [] \<Rightarrow> None
         | q # rest \<Rightarrow>
             if quote q \<and> takeWhile (\<lambda>c. \<not> quote c) rest \<noteq> []
                \<and> dropWhile (\<lambda>c. \<not> quote c) rest \<noteq> []
             then Some (takeWhile (\<lambda>c. \<not> quote c) rest)
             else None)
      else None)"

fun regex_match :: "string \<Rightarrow> (char \<Rightarrow> bool) \<Rightarrow> string \<Rightarrow> string option" where
  "regex_match key quote [] = None"
| "regex_match key quote (c # cs) =
     (case match_here key quote (c # cs) of
        Some g \<Rightarrow> Some g
      | None \<Rightarrow> regex_match key quote cs)"

definition is_quote :: "char \<Rightarrow> bool" where
  "is_quote c = (c = CHR 0x22 \<or> c = CHR 0x27)"

definition is_dquote :: "char \<Rightarrow> bool" where
  "is_dquote c = (c = CHR 0x22)"

text \<open>\<^verbatim>\<open>line.match(/uid=["']([^"']+)["']/)\<close>, group 1 (Chrome DevTools scripts).\<close>

definition match_uid :: "string \<Rightarrow> string option" where
  "match_uid line = regex_match ''uid='' is_quote line"

text \<open>\<^verbatim>\<open>line.match(/ref="([^"]+)"/)\<close>, group 1 (Playwright script).\<close>

definition match_ref :: "string \<Rightarrow> string option" where
  "match_ref line = regex_match ''ref='' is_dquote line"

section \<open>JavaScript values\<close>

text \<open>
  What a snapshot object, a table entry or a thrown value can be. Numbers are restricted
  to integers: the scripts only test them for truthiness. \<open>JFun name\<close> is a built-in
  function, which is what a property inherited from \<^verbatim>\<open>Object.prototype\<close> holds.
\<close>

datatype jsval =
    JUndefined
  | JNull
  | JBool bool
  | JNum int
  | JStr string
  | JArr "jsval list"
  | JObj "(string \<times> jsval) list"
  | JFun string

text \<open>
  What can be thrown, or be the reason of a rejected promise: a \<^verbatim>\<open>TypeError\<close> raised by
  the engine, an \<^verbatim>\<open>Error\<close> object of the host with its message, or any other value
  (\<^verbatim>\<open>undefined\<close> and \<^verbatim>\<open>null\<close> among them).
\<close>

datatype error = TypeError | HostError string | Thrown jsval

fun truthy :: "jsval \<Rightarrow> bool" where
  "truthy JUndefined = False"
| "truthy JNull = False"
| "truthy (JBool b) = b"
| "truthy (JNum n) = (n \<noteq> 0)"
| "truthy (JStr s) = (s \<noteq> [])"
| "truthy (JArr xs) = True"
| "truthy (JObj ps) = True"
| "truthy (JFun f) = True"

text \<open>\<^verbatim>\<open>a || b\<close>\<close>

definition js_or :: "jsval \<Rightarrow> jsval \<Rightarrow> jsval" where
  "js_or a b = (if truthy a then a else b)"

text \<open>
  The properties every object literal inherits from \<^verbatim>\<open>Object.prototype\<close>;
  \<^verbatim>\<open>__proto__\<close> reads as the prototype object itself.
\<close>

definition Object_prototype :: "(string \<times> jsval) list" where
  "Object_prototype =
     [(''constructor'', JFun ''Object''),
      (''hasOwnProperty'', JFun ''hasOwnProperty''),
      (''isPrototypeOf'', JFun ''isPrototypeOf''),
      (''propertyIsEnumerable'', JFun ''propertyIsEnumerable''),
      (''toLocaleString'', JFun ''toLocaleString''),
      (''toString'', JFun ''toString''),
      (''valueOf'', JFun ''valueOf''),
      (''__defineGetter__'', JFun ''__defineGetter__''),
      (''__defineSetter__'', JFun ''__defineSetter__''),
      (''__lookupGetter__'', JFun ''__lookupGetter__''),
      (''__lookupSetter__'', JFun ''__lookupSetter__''),
      (''__proto__'', JObj [])]"

text \<open>\<^verbatim>\<open>obj[key]\<close> on an object literal: own properties first, then the prototype.\<close>

definition get_member :: "(string \<times> jsval) list \<Rightarrow> string \<Rightarrow> jsval" where
  "get_member own key =
     (case map_of own key of
        Some v \<Rightarrow> v
      | None \<Rightarrow> (case map_of Object_prototype key of Some v \<Rightarrow> v | None \<Rightarrow> JUndefined))"

text \<open>
  \<^verbatim>\<open>snapshot.content\<close>: reading a property of \<^verbatim>\<open>undefined\<close> or \<^verbatim>\<open>null\<close>
  throws; strings, numbers, booleans, arrays and functions have no such property.
\<close>

fun get_content :: "jsval \<Rightarrow> error + jsval" where
  "get_content JUndefined = Inl TypeError"
| "get_content JNull = Inl TypeError"
| "get_content (JObj ps) = Inr (get_member ps ''content'')"
| "get_content v = Inr JUndefined"

text \<open>Decimal rendering of an integer, for \<open>ToString\<close>.\<close>

fun show_nat :: "nat \<Rightarrow> string" where
  "show_nat n =
     (if n < 10 then [char_of (48 + n)]
      else show_nat (n div 10) @ [char_of (48 + n mod 10)])"

definition show_int :: "int \<Rightarrow> string" where
  "show_int i = (if i < 0 then CHR ''-'' # show_nat (nat (- i)) else show_nat (nat i))"

fun join_comma :: "string list \<Rightarrow> string" where
  "join_comma [] = []"
| "join_comma [s] = s"
| "join_comma (s # t # ts) = s @ '','' @ join_comma (t # ts)"

text \<open>
  The string a value turns into when concatenated to a string with \<^verbatim>\<open>+\<close>.
  An array joins its elements, with \<^verbatim>\<open>null\<close> and \<^verbatim>\<open>undefined\<close> elements empty.
\<close>

fun ToString :: "jsval \<Rightarrow> string" where
  "ToString JUndefined = ''undefined''"
| "ToString JNull = ''null''"
| "ToString (JBool b) = (if b then ''true'' else ''false'')"
| "ToString (JNum n) = show_int n"
| "ToString (JStr s) = s"
| "ToString (JArr xs) =
     join_comma (map (\<lambda>x. if x = JUndefined \<or> x = JNull then [] else ToString x) xs)"
| "ToString (JObj ps) = ''[object Object]''"
| "ToString (JFun f) = ''function '' @ f @ ''() { [native code] }''"

text \<open>
  Whether the conversion of a value to a string inside a template literal completes.
  A primitive and a function always convert; an array joins its elements, converting
  each; an object literal that inherits \<^verbatim>\<open>toString\<close> converts to
  \<^verbatim>\<open>[object Object]\<close>. An object with a \<^verbatim>\<open>toString\<close> or a \<^verbatim>\<open>__proto__\<close> entry of
  its own is converted by a method these values do not describe, and is counted as not
  converting.
\<close>

fun converts :: "jsval \<Rightarrow> bool" where
  "converts (JArr xs) = list_all converts xs"
| "converts (JObj ps) = (map_of ps ''toString'' = None \<and> map_of ps ''__proto__'' = None)"
| "converts v = True"

text \<open>
  The log line of the \<^verbatim>\<open>catch\<close> blocks,
  \<^verbatim>\<open>console.error(`Error deleting tweet: ${error.message}`)\<close>, for the value caught:
  reading a property of \<^verbatim>\<open>undefined\<close> or \<^verbatim>\<open>null\<close> throws a \<^verbatim>\<open>TypeError\<close>, and so
  does a message that cannot be converted to a string. A thrown object is read like an
  object literal; any other thrown value has no \<^verbatim>\<open>message\<close>, and \<^verbatim>\<open>undefined\<close> is
  logged. \<open>Inl\<close> is a throw inside the \<^verbatim>\<open>catch\<close> block.
\<close>

fun read_message :: "error \<Rightarrow> error + unit" where
  "read_message TypeError = Inr ()"
| "read_message (HostError m) = Inr ()"
| "read_message (Thrown JUndefined) = Inl TypeError"
| "read_message (Thrown JNull) = Inl TypeError"
| "read_message (Thrown (JObj ps)) =
     (if map_of ps ''__proto__'' = None \<and> converts (get_member ps ''message'') then Inr ()
      else Inl TypeError)"
| "read_message (Thrown v) = Inr ()"

section \<open>Profile URL\<close>

definition CONTENT_TYPES :: "(string \<times> jsval) list" where
  "CONTENT_TYPES =
     [(''POSTS'', JStr ''''),
      (''REPLIES'', JStr ''/with_replies''),
      (''REPOSTS'', JStr '''')]"

definition getProfileUrl :: "string \<Rightarrow> string \<Rightarrow> string" where
  "getProfileUrl username contentType =
     (let baseUrl = ''https://x.com/'' @ username;
          suffix = js_or (get_member CONTENT_TYPES contentType) (JStr '''')
      in baseUrl @ ToString suffix)"

section \<open>Snapshot interpreter (Chrome DevTools scripts)\<close>

text \<open>
  The two Chrome DevTools versions of the deletion script differ only in their delays;
  their functions are the same text and are modelled once.
  \<^verbatim>\<open>snapshot.content ? snapshot.content.split('\n') : []\<close>: a truthy content
  that is not a string has no \<^verbatim>\<open>split\<close> method, and the call throws.
\<close>

definition content_lines :: "jsval \<Rightarrow> error + string list" where
  "content_lines snapshot =
     (case get_content snapshot of
        Inl e \<Rightarrow> Inl e
      | Inr content \<Rightarrow>
          if truthy content then
            (case content of JStr s \<Rightarrow> Inr (split_lines s) | _ \<Rightarrow> Inl TypeError)
          else Inr [])"

record tweet =
  uid :: string
  tweet_text :: string

text \<open>The \<^verbatim>\<open>for (const line of lines)\<close> loop of \<open>findTweetElements\<close>.\<close>

fun collect_tweets :: "string list \<Rightarrow> tweet list" where
  "collect_tweets [] = []"
| "collect_tweets (line # lines) =
     (case (if str_includes line ''article'' \<and> match_uid line \<noteq> None
            then match_uid line else None) of
        Some m \<Rightarrow> \<lparr>uid = m, tweet_text = line\<rparr> # collect_tweets lines
      | None \<Rightarrow> collect_tweets lines)"

definition findTweetElements :: "jsval \<Rightarrow> error + tweet list" where
  "findTweetElements snapshot =
     (case content_lines snapshot of
        Inl e \<Rightarrow> Inl e
      | Inr lines \<Rightarrow> Inr (collect_tweets lines))"

text \<open>
  The loop of \<open>findMoreButtonInTweet\<close>; the flag is \<^verbatim>\<open>inTweetContext\<close>.
  The order of the three tests in the body is the source's: enter the context, look
  for the control, then leave at the next container.
\<close>

fun more_button_loop :: "string \<Rightarrow> bool \<Rightarrow> string list \<Rightarrow> string option" where
  "more_button_loop tweet_uid inTweetContext [] = None"
| "more_button_loop tweet_uid inTweetContext (line # lines) =
     (let inTweetContext = (inTweetContext \<or> str_includes line tweet_uid) in
      case (if inTweetContext \<and> (str_includes line ''More'' \<or> str_includes line ''caret'')
            then match_uid line else None) of
        Some m \<Rightarrow> Some m
      | None \<Rightarrow>
          if inTweetContext \<and> str_includes line ''article'' \<and> \<not> str_includes line tweet_uid
          then None
          else more_button_loop tweet_uid inTweetContext lines)"

definition findMoreButtonInTweet :: "jsval \<Rightarrow> tweet \<Rightarrow> error + string option" where
  "findMoreButtonInTweet snapshot tw =
     (case content_lines snapshot of
        Inl e \<Rightarrow> Inl e
      | Inr lines \<Rightarrow> Inr (more_button_loop (uid tw) False lines))"

fun delete_button_loop :: "string list \<Rightarrow> string option" where
  "delete_button_loop [] = None"
| "delete_button_loop (line # lines) =
     (case (if (str_includes line ''Delete'' \<or> str_includes line ''delete'') \<and> match_uid line \<noteq> None
            then match_uid line else None) of
        Some m \<Rightarrow> Some m
      | None \<Rightarrow> delete_button_loop lines)"

definition findDeleteButton :: "jsval \<Rightarrow> error + string option" where
  "findDeleteButton snapshot =
     (case content_lines snapshot of
        Inl e \<Rightarrow> Inl e
      | Inr lines \<Rightarrow> Inr (delete_button_loop lines))"

text \<open>
  \<^verbatim>\<open>tweet.text && (...)\<close>: an empty text is returned as it is (a falsy string),
  otherwise the result is the boolean of the three marker tests.
\<close>

definition isRepost :: "tweet \<Rightarrow> jsval" where
  "isRepost tw =
     (if truthy (JStr (tweet_text tw)) then
        JBool (str_includes (tweet_text tw) ''Reposted''
               \<or> str_includes (tweet_text tw) ''retweeted''
               \<or> str_includes (tweet_text tw) ''repost'')
      else JStr (tweet_text tw))"

fun unretweet_button_loop :: "string \<Rightarrow> bool \<Rightarrow> string list \<Rightarrow> string option" where
  "unretweet_button_loop tweet_uid inTweetContext [] = None"
| "unretweet_button_loop tweet_uid inTweetContext (line # lines) =
     (let inTweetContext = (inTweetContext \<or> str_includes line tweet_uid) in
      case (if inTweetContext \<and> str_includes line ''unretweet''
            then match_uid line else None) of
        Some m \<Rightarrow> Some m
      | None \<Rightarrow>
          if inTweetContext \<and> str_includes line ''article'' \<and> \<not> str_includes line tweet_uid
          then None
          else unretweet_button_loop tweet_uid inTweetContext lines)"

definition findUnretweetButton :: "jsval \<Rightarrow> tweet \<Rightarrow> error + string option" where
  "findUnretweetButton snapshot tw =
     (case content_lines snapshot of
        Inl e \<Rightarrow> Inl e
      | Inr lines \<Rightarrow> Inr (unretweet_button_loop (uid tw) False lines))"

fun unretweet_confirm_loop :: "string list \<Rightarrow> string option" where
  "unretweet_confirm_loop [] = None"
| "unretweet_confirm_loop (line # lines) =
     (case (if str_includes line ''Undo'' \<and> match_uid line \<noteq> None
            then match_uid line else None) of
        Some m \<Rightarrow> Some m
      | None \<Rightarrow> unretweet_confirm_loop lines)"

definition findUnretweetConfirmButton :: "jsval \<Rightarrow> error + string option" where
  "findUnretweetConfirmButton snapshot =
     (case content_lines snapshot of
        Inl e \<Rightarrow> Inl e
      | Inr lines \<Rightarrow> Inr (unretweet_confirm_loop lines))"

section \<open>Snapshot interpreter (Playwright script)\<close>

text \<open>
  \<^verbatim>\<open>const content = snapshot.content || snapshot || '';\<close>
  \<^verbatim>\<open>const lines = typeof content === 'string' ? content.split('\n') : [];\<close>
\<close>

definition content_lines_pw :: "jsval \<Rightarrow> error + string list" where
  "content_lines_pw snapshot =
     (case get_content snapshot of
        Inl e \<Rightarrow> Inl e
      | Inr c \<Rightarrow>
          (case js_or (js_or c snapshot) (JStr '''') of
             JStr s \<Rightarrow> Inr (split_lines s)
           | _ \<Rightarrow> Inr []))"

record ref_tweet =
  ref :: string
  ref_text :: string

fun collect_tweets_pw :: "string list \<Rightarrow> ref_tweet list" where
  "collect_tweets_pw [] = []"
| "collect_tweets_pw (line # lines) =
     (case (if str_includes line ''article'' \<and> match_ref line \<noteq> None
            then match_ref line else None) of
        Some m \<Rightarrow> \<lparr>ref = m, ref_text = line\<rparr> # collect_tweets_pw lines
      | None \<Rightarrow> collect_tweets_pw lines)"

definition findTweetElements_pw :: "jsval \<Rightarrow> error + ref_tweet list" where
  "findTweetElements_pw snapshot =
     (case content_lines_pw snapshot of
        Inl e \<Rightarrow> Inl e
      | Inr lines \<Rightarrow> Inr (collect_tweets_pw lines))"

fun more_button_loop_pw :: "string \<Rightarrow> bool \<Rightarrow> string list \<Rightarrow> string option" where
  "more_button_loop_pw tweet_ref inTweetContext [] = None"
| "more_button_loop_pw tweet_ref inTweetContext (line # lines) =
     (let inTweetContext = (inTweetContext \<or> str_includes line tweet_ref) in
      case (if inTweetContext \<and> (str_includes line ''More'' \<or> str_includes line ''caret'')
            then match_ref line else None) of
        Some m \<Rightarrow> Some m
      | None \<Rightarrow>
          if inTweetContext \<and> str_includes line ''article'' \<and> \<not> str_includes line tweet_ref
          then None
          else more_button_loop_pw tweet_ref inTweetContext lines)"

definition findMoreButtonInTweet_pw :: "jsval \<Rightarrow> ref_tweet \<Rightarrow> error + string option" where
  "findMoreButtonInTweet_pw snapshot tw =
     (case content_lines_pw snapshot of
        Inl e \<Rightarrow> Inl e
      | Inr lines \<Rightarrow> Inr (more_button_loop_pw (ref tw) False lines))"

fun delete_button_loop_pw :: "string list \<Rightarrow> string option" where
  "delete_button_loop_pw [] = None"
| "delete_button_loop_pw (line # lines) =
     (case (if (str_includes line ''Delete'' \<or> str_includes line ''delete'') \<and> match_ref line \<noteq> None
            then match_ref line else None) of
        Some m \<Rightarrow> Some m
      | None \<Rightarrow> delete_button_loop_pw lines)"

definition findDeleteButton_pw :: "jsval \<Rightarrow> error + string option" where
  "findDeleteButton_pw snapshot =
     (case content_lines_pw snapshot of
        Inl e \<Rightarrow> Inl e
      | Inr lines \<Rightarrow> Inr (delete_button_loop_pw lines))"

fun confirm_button_loop :: "string list \<Rightarrow> string option" where
  "confirm_button_loop [] = None"
| "confirm_button_loop (line # lines) =
     (case (if (str_includes line ''confirmationSheetConfirm''
                \<or> (str_includes line ''Delete'' \<and> str_includes line ''button''))
               \<and> match_ref line \<noteq> None
            then match_ref line else None) of
        Some m \<Rightarrow> Some m
      | None \<Rightarrow> confirm_button_loop lines)"

definition findConfirmButton :: "jsval \<Rightarrow> error + string option" where
  "findConfirmButton snapshot =
     (case content_lines_pw snapshot of
        Inl e \<Rightarrow> Inl e
      | Inr lines \<Rightarrow> Inr (confirm_button_loop lines))"

definition isRepost_pw :: "ref_tweet \<Rightarrow> jsval" where
  "isRepost_pw tw =
     (if truthy (JStr (ref_text tw)) then
        JBool (str_includes (ref_text tw) ''Reposted''
               \<or> str_includes (ref_text tw) ''retweeted''
               \<or> str_includes (ref_text tw) ''repost'')
      else JStr (ref_text tw))"

fun unretweet_button_loop_pw :: "string \<Rightarrow> bool \<Rightarrow> string list \<Rightarrow> string option" where
  "unretweet_button_loop_pw tweet_ref inTweetContext [] = None"
| "unretweet_button_loop_pw tweet_ref inTweetContext (line # lines) =
     (let inTweetContext = (inTweetContext \<or> str_includes line tweet_ref) in
      case (if inTweetContext \<and> str_includes line ''unretweet''
            then match_ref line else None) of
        Some m \<Rightarrow> Some m
      | None \<Rightarrow>
          if inTweetContext \<and> str_includes line ''article'' \<and> \<not> str_includes line tweet_ref
          then None
          else unretweet_button_loop_pw tweet_ref inTweetContext lines)"

definition findUnretweetButton_pw :: "jsval \<Rightarrow> ref_tweet \<Rightarrow> error + string option" where
  "findUnretweetButton_pw snapshot tw =
     (case content_lines_pw snapshot of
        Inl e \<Rightarrow> Inl e
      | Inr lines \<Rightarrow> Inr (unretweet_button_loop_pw (ref tw) False lines))"

fun unretweet_confirm_loop_pw :: "string list \<Rightarrow> string option" where
  "unretweet_confirm_loop_pw [] = None"
| "unretweet_confirm_loop_pw (line # lines) =
     (case (if (str_includes line ''Undo'' \<or> str_includes line ''unretweetConfirm'') \<and> match_ref line \<noteq> None
            then match_ref line else None) of
        Some m \<Rightarrow> Some m
      | None \<Rightarrow> unretweet_confirm_loop_pw lines)"

definition findUnretweetConfirmButton_pw :: "jsval \<Rightarrow> error + string option" where
  "findUnretweetConfirmButton_pw snapshot =
     (case content_lines_pw snapshot of
        Inl e \<Rightarrow> Inl e
      | Inr lines \<Rightarrow> Inr (unretweet_confirm_loop_pw lines))"

section \<open>The host and the run state\<close>

text \<open>
  The browser primitives are supplied by the host. The script is sequential, so a run
  is determined by the answers the host gives, and the host is modelled as an oracle:
  \<open>cycles host i\<close> holds the answers given during scan cycle \<open>i\<close> (one iteration of
  the \<^verbatim>\<open>while\<close> loop), and within a cycle \<open>take_snapshot h k\<close>, \<open>click h k u\<close> and
  \<open>evaluate_script h k\<close> answer the \<open>k\<close>-th call of that primitive in the cycle.
  \<open>Inl e\<close> is a rejected promise (the \<^verbatim>\<open>await\<close> throws \<open>e\<close>). Waiting
  (\<^verbatim>\<open>delay\<close>) and logging have no effect on the run and are left out.
\<close>

record host_cycle =
  take_snapshot :: "nat \<Rightarrow> error + jsval"
  click :: "nat \<Rightarrow> string \<Rightarrow> error + unit"
  handle_dialog :: "error + unit"
  evaluate_script :: "nat \<Rightarrow> error + unit"

record host =
  navigate_page :: "string \<Rightarrow> error + unit"
  cycles :: "nat \<Rightarrow> host_cycle"

text \<open>
  The variables of \<open>deleteContent\<close>, and three observations of the run that the code
  does not store: the number of scan cycles begun, the number of snapshots captured,
  and for every call of \<open>click\<close> the handle, the number of the snapshot the handle was
  extracted from and the number of the latest snapshot at the time of the call.
\<close>

record click_event =
  clicked :: string
  extracted_from :: nat
  latest_snapshot :: nat

record run_state =
  deletedCount :: nat
  consecutiveEmptyAttempts :: nat
  scan_cycles :: nat
  snapshots_taken :: nat
  clicks :: "click_event list"

definition initial_state :: run_state where
  "initial_state =
     \<lparr>deletedCount = 0, consecutiveEmptyAttempts = 0, scan_cycles = 0,
      snapshots_taken = 0, clicks = []\<rparr>"

definition log_click :: "string \<Rightarrow> nat \<Rightarrow> run_state \<Rightarrow> run_state" where
  "log_click u src st =
     st\<lparr>clicks := clicks st @
          [\<lparr>clicked = u, extracted_from = src, latest_snapshot = snapshots_taken st\<rparr>]\<rparr>"

text \<open>Every click in the log used a handle of the latest snapshot.\<close>

definition fresh_clicks :: "run_state \<Rightarrow> bool" where
  "fresh_clicks st = list_all (\<lambda>c. extracted_from c = latest_snapshot c) (clicks st)"

definition MAX_EMPTY_ATTEMPTS :: nat where
  "MAX_EMPTY_ATTEMPTS = 3"

text \<open>How the \<^verbatim>\<open>try\<close> block ends: at its end, by \<^verbatim>\<open>continue\<close>, or by a throw.\<close>

datatype completion = Normal | Continue | Throw error

datatype 's run_result = Returned 's | Rejected error 's | OutOfFuel 's

fun final_state :: "'s run_result \<Rightarrow> 's" where
  "final_state (Returned st) = st"
| "final_state (Rejected e st) = st"
| "final_state (OutOfFuel st) = st"

section \<open>deleteContent (Chrome DevTools scripts)\<close>

text \<open>
  The repost branch of the \<^verbatim>\<open>try\<close> block. \<open>n\<close> is the number of the snapshot the
  tweet was found in. A handle returned by a finder is the non-empty capture group of
  the regular expression, so \<^verbatim>\<open>if (uid)\<close> is the test for \<open>Some\<close>.
\<close>

definition repost_path :: "host_cycle \<Rightarrow> jsval \<Rightarrow> nat \<Rightarrow> tweet \<Rightarrow> run_state \<Rightarrow> completion \<times> run_state" where
  "repost_path h snapshot n tw st =
     (case findUnretweetButton snapshot tw of
        Inl e \<Rightarrow> (Throw e, st)
      | Inr None \<Rightarrow> (Normal, st)
      | Inr (Some unretweetUid) \<Rightarrow>
          (let st1 = log_click unretweetUid n st in
           case click h 0 unretweetUid of
             Inl e \<Rightarrow> (Throw e, st1)
           | Inr _ \<Rightarrow>
               (case take_snapshot h 1 of
                  Inl e \<Rightarrow> (Throw e, st1)
                | Inr confirmSnapshot \<Rightarrow>
                    (let st2 = st1\<lparr>snapshots_taken := snapshots_taken st1 + 1\<rparr> in
                     case findUnretweetConfirmButton confirmSnapshot of
                       Inl e \<Rightarrow> (Throw e, st2)
                     | Inr None \<Rightarrow> (Normal, st2)
                     | Inr (Some confirmUid) \<Rightarrow>
                         (let st3 = log_click confirmUid (snapshots_taken st2) st2 in
                          case click h 1 confirmUid of
                            Inl e \<Rightarrow> (Throw e, st3)
                          | Inr _ \<Rightarrow>
                              (Normal, st3\<lparr>deletedCount := deletedCount st3 + 1\<rparr>))))))"

text \<open>The regular deletion flow: More, Delete, accept the dialog.\<close>

definition ordinary_path :: "host_cycle \<Rightarrow> jsval \<Rightarrow> nat \<Rightarrow> tweet \<Rightarrow> run_state \<Rightarrow> completion \<times> run_state" where
  "ordinary_path h snapshot n tw st =
     (case findMoreButtonInTweet snapshot tw of
        Inl e \<Rightarrow> (Throw e, st)
      | Inr None \<Rightarrow> (Continue, st)
      | Inr (Some moreButtonUid) \<Rightarrow>
          (let st1 = log_click moreButtonUid n st in
           case click h 0 moreButtonUid of
             Inl e \<Rightarrow> (Throw e, st1)
           | Inr _ \<Rightarrow>
               (case take_snapshot h 1 of
                  Inl e \<Rightarrow> (Throw e, st1)
                | Inr menuSnapshot \<Rightarrow>
                    (let st2 = st1\<lparr>snapshots_taken := snapshots_taken st1 + 1\<rparr> in
                     case findDeleteButton menuSnapshot of
                       Inl e \<Rightarrow> (Throw e, st2)
                     | Inr None \<Rightarrow> (Continue, st2)
                     | Inr (Some deleteButtonUid) \<Rightarrow>
                         (let st3 = log_click deleteButtonUid (snapshots_taken st2) st2 in
                          case click h 1 deleteButtonUid of
                            Inl e \<Rightarrow> (Throw e, st3)
                          | Inr _ \<Rightarrow>
                              (case handle_dialog h of
                                 Inl e \<Rightarrow> (Throw e, st3)
                               | Inr _ \<Rightarrow>
                                   (Normal, st3\<lparr>deletedCount := deletedCount st3 + 1\<rparr>)))))))"

definition try_block :: "host_cycle \<Rightarrow> jsval \<Rightarrow> nat \<Rightarrow> tweet \<Rightarrow> run_state \<Rightarrow> completion \<times> run_state" where
  "try_block h snapshot n tw st =
     (if truthy (isRepost tw) then repost_path h snapshot n tw st
      else ordinary_path h snapshot n tw st)"

text \<open>
  What follows the \<^verbatim>\<open>try\<close> block in an iteration: nothing after \<^verbatim>\<open>continue\<close>,
  the scroll after a normal end, and after a throw the \<^verbatim>\<open>catch\<close> block, which reads
  \<^verbatim>\<open>error.message\<close> for its log line and scrolls to recover, followed by the scroll.
  \<open>Inl\<close> leaves the function, \<open>Inr\<close> goes on to the next iteration.
\<close>

definition after_try :: "host_cycle \<Rightarrow> completion \<Rightarrow> error + unit" where
  "after_try h c =
     (case c of
        Continue \<Rightarrow> Inr ()
      | Normal \<Rightarrow> evaluate_script h 0
      | Throw e \<Rightarrow>
          (case read_message e of
             Inl e' \<Rightarrow> Inl e'
           | Inr _ \<Rightarrow>
               (case evaluate_script h 0 of
                  Inl e' \<Rightarrow> Inl e'
                | Inr _ \<Rightarrow> evaluate_script h 1)))"

text \<open>
  The \<^verbatim>\<open>while (hasMore)\<close> loop. One unit of fuel is one iteration, that is one
  scan cycle; \<open>OutOfFuel\<close> is a run that is still going after that many cycles.
\<close>

fun deleteContent_loop :: "(nat \<Rightarrow> host_cycle) \<Rightarrow> nat \<Rightarrow> run_state \<Rightarrow> run_state run_result" where
  "deleteContent_loop cyc 0 st = OutOfFuel st"
| "deleteContent_loop cyc (Suc fuel) st =
     (let h = cyc (scan_cycles st);
          st0 = st\<lparr>scan_cycles := scan_cycles st + 1\<rparr>
      in case take_snapshot h 0 of
           Inl e \<Rightarrow> Rejected e st0
         | Inr snapshot \<Rightarrow>
             (let st1 = st0\<lparr>snapshots_taken := snapshots_taken st0 + 1\<rparr>
              in case findTweetElements snapshot of
                   Inl e \<Rightarrow> Rejected e st1
                 | Inr [] \<Rightarrow>
                     (let st2 = st1\<lparr>consecutiveEmptyAttempts := consecutiveEmptyAttempts st1 + 1\<rparr>
                      in if consecutiveEmptyAttempts st2 \<ge> MAX_EMPTY_ATTEMPTS then Returned st2
                         else (case evaluate_script h 0 of
                                 Inl e \<Rightarrow> Rejected e st2
                               | Inr _ \<Rightarrow> deleteContent_loop cyc fuel st2))
                 | Inr (tw # others) \<Rightarrow>
                     (let st2 = st1\<lparr>consecutiveEmptyAttempts := 0\<rparr>;
                          r = try_block h snapshot (snapshots_taken st2) tw st2
                      in case after_try h (fst r) of
                           Inl e \<Rightarrow> Rejected e (snd r)
                         | Inr _ \<Rightarrow> deleteContent_loop cyc fuel (snd r))))"

text \<open>The value the function returns is \<open>deletedCount\<close> of the \<open>Returned\<close> state.\<close>

definition deleteContent :: "host \<Rightarrow> nat \<Rightarrow> string \<Rightarrow> string \<Rightarrow> run_state run_result" where
  "deleteContent mcpTools fuel username contentType =
     (let url = getProfileUrl username contentType
      in case navigate_page mcpTools url of
           Inl e \<Rightarrow> Rejected e initial_state
         | Inr _ \<Rightarrow> deleteContent_loop (cycles mcpTools) fuel initial_state)"

section \<open>deleteContent (Playwright script)\<close>

text \<open>
  The host record is the same, with \<open>take_snapshot\<close> for \<^verbatim>\<open>browser_snapshot\<close>,
  \<open>click\<close> for \<^verbatim>\<open>browser_click\<close>, \<open>evaluate_script\<close> for \<^verbatim>\<open>browser_evaluate\<close>
  and \<open>navigate_page\<close> for \<^verbatim>\<open>browser_navigate\<close>.
\<close>

definition repost_path_pw :: "host_cycle \<Rightarrow> jsval \<Rightarrow> nat \<Rightarrow> ref_tweet \<Rightarrow> run_state \<Rightarrow> completion \<times> run_state" where
  "repost_path_pw h snapshot n tw st =
     (case findUnretweetButton_pw snapshot tw of
        Inl e \<Rightarrow> (Throw e, st)
      | Inr None \<Rightarrow> (Normal, st)
      | Inr (Some unretweetRef) \<Rightarrow>
          (let st1 = log_click unretweetRef n st in
           case click h 0 unretweetRef of
             Inl e \<Rightarrow> (Throw e, st1)
           | Inr _ \<Rightarrow>
               (case take_snapshot h 1 of
                  Inl e \<Rightarrow> (Throw e, st1)
                | Inr confirmSnapshot \<Rightarrow>
                    (let st2 = st1\<lparr>snapshots_taken := snapshots_taken st1 + 1\<rparr> in
                     case findUnretweetConfirmButton_pw confirmSnapshot of
                       Inl e \<Rightarrow> (Throw e, st2)
                     | Inr None \<Rightarrow> (Normal, st2)
                     | Inr (Some confirmRef) \<Rightarrow>
                         (let st3 = log_click confirmRef (snapshots_taken st2) st2 in
                          case click h 1 confirmRef of
                            Inl e \<Rightarrow> (Throw e, st3)
                          | Inr _ \<Rightarrow>
                              (Normal, st3\<lparr>deletedCount := deletedCount st3 + 1\<rparr>))))))"

text \<open>
  The step after the click on Delete, to the end of the branch: the confirmation
  button is looked up in a new snapshot and clicked if found, and the counter is
  incremented after the \<^verbatim>\<open>if\<close>.
\<close>

definition confirm_step_pw :: "host_cycle \<Rightarrow> run_state \<Rightarrow> completion \<times> run_state" where
  "confirm_step_pw h st3 =
     (case take_snapshot h 2 of
        Inl e \<Rightarrow> (Throw e, st3)
      | Inr confirmSnapshot \<Rightarrow>
          (let st4 = st3\<lparr>snapshots_taken := snapshots_taken st3 + 1\<rparr> in
           case findConfirmButton confirmSnapshot of
             Inl e \<Rightarrow> (Throw e, st4)
           | Inr None \<Rightarrow> (Normal, st4\<lparr>deletedCount := deletedCount st4 + 1\<rparr>)
           | Inr (Some confirmButtonRef) \<Rightarrow>
               (let st5 = log_click confirmButtonRef (snapshots_taken st4) st4 in
                case click h 2 confirmButtonRef of
                  Inl e \<Rightarrow> (Throw e, st5)
                | Inr _ \<Rightarrow> (Normal, st5\<lparr>deletedCount := deletedCount st5 + 1\<rparr>))))"

definition ordinary_path_pw :: "host_cycle \<Rightarrow> jsval \<Rightarrow> nat \<Rightarrow> ref_tweet \<Rightarrow> run_state \<Rightarrow> completion \<times> run_state" where
  "ordinary_path_pw h snapshot n tw st =
     (case findMoreButtonInTweet_pw snapshot tw of
        Inl e \<Rightarrow> (Throw e, st)
      | Inr None \<Rightarrow> (Continue, st)
      | Inr (Some moreButtonRef) \<Rightarrow>
          (let st1 = log_click moreButtonRef n st in
           case click h 0 moreButtonRef of
             Inl e \<Rightarrow> (Throw e, st1)
           | Inr _ \<Rightarrow>
               (case take_snapshot h 1 of
                  Inl e \<Rightarrow> (Throw e, st1)
                | Inr menuSnapshot \<Rightarrow>
                    (let st2 = st1\<lparr>snapshots_taken := snapshots_taken st1 + 1\<rparr> in
                     case findDeleteButton_pw menuSnapshot of
                       Inl e \<Rightarrow> (Throw e, st2)
                     | Inr None \<Rightarrow> (Continue, st2)
                     | Inr (Some deleteButtonRef) \<Rightarrow>
                         (let st3 = log_click deleteButtonRef (snapshots_taken st2) st2 in
                          case click h 1 deleteButtonRef of
                            Inl e \<Rightarrow> (Throw e, st3)
                          | Inr _ \<Rightarrow> confirm_step_pw h st3)))))"

definition try_block_pw :: "host_cycle \<Rightarrow> jsval \<Rightarrow> nat \<Rightarrow> ref_tweet \<Rightarrow> run_state \<Rightarrow> completion \<times> run_state" where
  "try_block_pw h snapshot n tw st =
     (if truthy (isRepost_pw tw) then repost_path_pw h snapshot n tw st
      else ordinary_path_pw h snapshot n tw st)"

fun deleteContent_loop_pw :: "(nat \<Rightarrow> host_cycle) \<Rightarrow> nat \<Rightarrow> run_state \<Rightarrow> run_state run_result" where
  "deleteContent_loop_pw cyc 0 st = OutOfFuel st"
| "deleteContent_loop_pw cyc (Suc fuel) st =
     (let h = cyc (scan_cycles st);
          st0 = st\<lparr>scan_cycles := scan_cycles st + 1\<rparr>
      in case take_snapshot h 0 of
           Inl e \<Rightarrow> Rejected e st0
         | Inr snapshot \<Rightarrow>
             (let st1 = st0\<lparr>snapshots_taken := snapshots_taken st0 + 1\<rparr>
              in case findTweetElements_pw snapshot of
                   Inl e \<Rightarrow> Rejected e st1
                 | Inr [] \<Rightarrow>
                     (let st2 = st1\<lparr>consecutiveEmptyAttempts := consecutiveEmptyAttempts st1 + 1\<rparr>
                      in if consecutiveEmptyAttempts st2 \<ge> MAX_EMPTY_ATTEMPTS then Returned st2
                         else (case evaluate_script h 0 of
                                 Inl e \<Rightarrow> Rejected e st2
                               | Inr _ \<Rightarrow> deleteContent_loop_pw cyc fuel st2))
                 | Inr (tw # others) \<Rightarrow>
                     (let st2 = st1\<lparr>consecutiveEmptyAttempts := 0\<rparr>;
                          r = try_block_pw h snapshot (snapshots_taken st2) tw st2
                      in case after_try h (fst r) of
                           Inl e \<Rightarrow> Rejected e (snd r)
                         | Inr _ \<Rightarrow> deleteContent_loop_pw cyc fuel (snd r))))"

definition deleteContent_pw :: "host \<Rightarrow> nat \<Rightarrow> string \<Rightarrow> string \<Rightarrow> run_state run_result" where
  "deleteContent_pw mcpTools fuel username contentType =
     (let url = getProfileUrl username contentType
      in case navigate_page mcpTools url of
           Inl e \<Rightarrow> Rejected e initial_state
         | Inr _ \<Rightarrow> deleteContent_loop_pw (cycles mcpTools) fuel initial_state)"

section \<open>deleteTweets (the automation flow of the skill description)\<close>

text \<open>
  The skill description gives the deletion flow as a function \<open>deleteTweets\<close>. Its
  helpers \<^verbatim>\<open>navigateToTab\<close>, \<^verbatim>\<open>findMoreButton\<close> and \<^verbatim>\<open>scrollPage\<close> are not
  defined anywhere in the repository: the answers of the first and the last come from
  the host, and \<open>findMoreButton\<close> is a parameter. \<open>findTweetElements\<close> and
  \<open>findDeleteButton\<close> are the functions of the Chrome DevTools script. The handles
  are passed to \<^verbatim>\<open>click\<close> unchecked, so a handle may be \<^verbatim>\<open>null\<close> (\<open>None\<close>).
  The host answers per scan cycle and, inside a cycle, per iteration of the
  \<^verbatim>\<open>for (const tweet of tweets)\<close> loop.
\<close>

record item_host =
  item_click :: "nat \<Rightarrow> string option \<Rightarrow> error + unit"
  item_takeSnapshot :: "error + jsval"
  item_handleDialog :: "error + unit"

record tab_cycle =
  takeSnapshot :: "error + jsval"
  item :: "nat \<Rightarrow> item_host"
  scrollPage :: "error + unit"

record tab_host =
  navigateToTab :: "string \<Rightarrow> error + unit"
  tab_cycles :: "nat \<Rightarrow> tab_cycle"

text \<open>
  \<open>tab_clicks\<close> records, for every call of \<^verbatim>\<open>click\<close>, the handle, the number of
  the snapshot it was derived from and the number of the latest snapshot.
\<close>

record tab_state =
  tab_deletedCount :: nat
  tab_scan_cycles :: nat
  tab_snapshots_taken :: nat
  tab_clicks :: "(string option \<times> nat \<times> nat) list"

definition tab_initial_state :: tab_state where
  "tab_initial_state =
     \<lparr>tab_deletedCount = 0, tab_scan_cycles = 0, tab_snapshots_taken = 0, tab_clicks = []\<rparr>"

definition tab_log_click :: "string option \<Rightarrow> nat \<Rightarrow> tab_state \<Rightarrow> tab_state" where
  "tab_log_click u src st =
     st\<lparr>tab_clicks := tab_clicks st @ [(u, src, tab_snapshots_taken st)]\<rparr>"

text \<open>
  The \<^verbatim>\<open>try\<close> block for one tweet found in snapshot \<open>n\<close>: the state reached, and
  the value thrown if the block did not reach its end.
\<close>

definition try_one :: "(tweet \<Rightarrow> string option) \<Rightarrow> item_host \<Rightarrow> nat \<Rightarrow> tweet \<Rightarrow> tab_state \<Rightarrow> error option \<times> tab_state" where
  "try_one findMoreButton ih n tw st =
     (let moreButton = findMoreButton tw;
          st1 = tab_log_click moreButton n st
      in case item_click ih 0 moreButton of
           Inl e \<Rightarrow> (Some e, st1)
         | Inr _ \<Rightarrow>
             (case item_takeSnapshot ih of
                Inl e \<Rightarrow> (Some e, st1)
              | Inr menuSnapshot \<Rightarrow>
                  (let st2 = st1\<lparr>tab_snapshots_taken := tab_snapshots_taken st1 + 1\<rparr> in
                   case findDeleteButton menuSnapshot of
                     Inl e \<Rightarrow> (Some e, st2)
                   | Inr deleteButton \<Rightarrow>
                       (let st3 = tab_log_click deleteButton (tab_snapshots_taken st2) st2 in
                        case item_click ih 1 deleteButton of
                          Inl e \<Rightarrow> (Some e, st3)
                        | Inr _ \<Rightarrow>
                            (case item_handleDialog ih of
                               Inl e \<Rightarrow> (Some e, st3)
                             | Inr _ \<Rightarrow>
                                 (None, st3\<lparr>tab_deletedCount := tab_deletedCount st3 + 1\<rparr>))))))"

text \<open>
  The body of the \<^verbatim>\<open>for\<close> loop: the \<^verbatim>\<open>catch\<close> block reads \<^verbatim>\<open>error.message\<close>
  for its log line and goes on to the next tweet; what that read throws leaves the
  function.
\<close>

definition delete_one :: "(tweet \<Rightarrow> string option) \<Rightarrow> item_host \<Rightarrow> nat \<Rightarrow> tweet \<Rightarrow> tab_state \<Rightarrow> error option \<times> tab_state" where
  "delete_one findMoreButton ih n tw st =
     (let r = try_one findMoreButton ih n tw st
      in case fst r of
           None \<Rightarrow> (None, snd r)
         | Some e \<Rightarrow>
             (case read_message e of
                Inl e' \<Rightarrow> (Some e', snd r)
              | Inr _ \<Rightarrow> (None, snd r)))"

fun for_tweets :: "(tweet \<Rightarrow> string option) \<Rightarrow> (nat \<Rightarrow> item_host) \<Rightarrow> nat \<Rightarrow> nat \<Rightarrow> tweet list \<Rightarrow> tab_state \<Rightarrow> error option \<times> tab_state" where
  "for_tweets findMoreButton its n j [] st = (None, st)"
| "for_tweets findMoreButton its n j (tw # tweets) st =
     (let r = delete_one findMoreButton (its j) n tw st
      in case fst r of
           Some e \<Rightarrow> (Some e, snd r)
         | None \<Rightarrow> for_tweets findMoreButton its n (j + 1) tweets (snd r))"

fun deleteTweets_loop :: "(tweet \<Rightarrow> string option) \<Rightarrow> (nat \<Rightarrow> tab_cycle) \<Rightarrow> nat \<Rightarrow> tab_state \<Rightarrow> tab_state run_result" where
  "deleteTweets_loop findMoreButton cyc 0 st = OutOfFuel st"
| "deleteTweets_loop findMoreButton cyc (Suc fuel) st =
     (let h = cyc (tab_scan_cycles st);
          st0 = st\<lparr>tab_scan_cycles := tab_scan_cycles st + 1\<rparr>
      in case takeSnapshot h of
           Inl e \<Rightarrow> Rejected e st0
         | Inr snapshot \<Rightarrow>
             (let st1 = st0\<lparr>tab_snapshots_taken := tab_snapshots_taken st0 + 1\<rparr>
              in case findTweetElements snapshot of
                   Inl e \<Rightarrow> Rejected e st1
                 | Inr tweets \<Rightarrow>
                     if length tweets = 0 then Returned st1
                     else
                       (let r = for_tweets findMoreButton (item h) (tab_snapshots_taken st1) 0 tweets st1
                        in case fst r of
                             Some e \<Rightarrow> Rejected e (snd r)
                           | None \<Rightarrow>
                               (case scrollPage h of
                                  Inl e \<Rightarrow> Rejected e (snd r)
                                | Inr _ \<Rightarrow> deleteTweets_loop findMoreButton cyc fuel (snd r)))))"

definition deleteTweets :: "(tweet \<Rightarrow> string option) \<Rightarrow> tab_host \<Rightarrow> nat \<Rightarrow> string \<Rightarrow> tab_state run_result" where
  "deleteTweets findMoreButton host fuel contentType =
     (case navigateToTab host contentType of
        Inl e \<Rightarrow> Rejected e tab_initial_state
      | Inr _ \<Rightarrow> deleteTweets_loop findMoreButton (tab_cycles host) fuel tab_initial_state)"

section \<open>Inactive followers\<close>

text \<open>
  A \<^verbatim>\<open>Date\<close> object holds a time value in milliseconds or is invalid (its time
  value is \<^verbatim>\<open>NaN\<close>); \<open>None\<close> is \<^verbatim>\<open>null\<close>. \<open>now\<close> is the reading of the clock,
  \<^verbatim>\<open>new Date()\<close>. With an invalid date the difference is \<^verbatim>\<open>NaN\<close> and every
  comparison with it is false. The quotient is compared as a real number: for whole
  milliseconds it exceeds 180 exactly when the double does.
\<close>

datatype jsdate = Date int | InvalidDate

definition inactiveDays :: real where
  "inactiveDays = 180"

definition isInactive :: "int \<Rightarrow> jsdate option \<Rightarrow> bool" where
  "isInactive now lastTweetDate =
     (case lastTweetDate of
        None \<Rightarrow> False
      | Some InvalidDate \<Rightarrow> False
      | Some (Date t) \<Rightarrow>
          (let diffMs = now - t;
               diffDays = real_of_int diffMs / (1000 * 60 * 60 * 24)
           in diffDays > inactiveDays))"

text \<open>
  The repository holds two versions of the follower script: the one that removes a
  follower by blocking and unblocking (\<^verbatim>\<open>src/remove-inactive-followers.js\<close>, suffix
  \<open>_block\<close>) and the one that checks profiles in a popup window (suffix \<open>_popup\<close>).

  A cell of the followers list, as far as \<open>getFollowerElements\<close> reads it: the
  \<^verbatim>\<open>href\<close> of the first link the selector finds in it, if any.
\<close>

record cell =
  cell_id :: nat
  userLink :: "string option"

record follower =
  element :: cell
  username :: string

text \<open>
  \<^verbatim>\<open>href && href.match(/^\/[^\/]+$/) && !href.includes('/status/')\<close>, then
  \<^verbatim>\<open>href.substring(1)\<close>; the same in both versions.
\<close>

definition href_username :: "string \<Rightarrow> string option" where
  "href_username href =
     (case href of
        [] \<Rightarrow> None
      | c # rest \<Rightarrow>
          if c = CHR ''/'' \<and> rest \<noteq> [] \<and> CHR ''/'' \<notin> set rest
             \<and> \<not> str_includes href ''/status/''
          then Some rest else None)"

text \<open>
  \<open>getFollowerElements\<close> of the block version: the list of names that are not
  followers, the loop over the cells, and the list returned as it was collected.
\<close>

definition reserved_names_block :: "string list" where
  "reserved_names_block =
     [''home'', ''explore'', ''notifications'', ''messages'', ''settings'']"

fun follower_cells_block :: "cell list \<Rightarrow> follower list" where
  "follower_cells_block [] = []"
| "follower_cells_block (c # cells) =
     (case (case userLink c of None \<Rightarrow> None | Some href \<Rightarrow> href_username href) of
        None \<Rightarrow> follower_cells_block cells
      | Some name \<Rightarrow>
          if name \<noteq> [] \<and> name \<notin> set reserved_names_block
          then \<lparr>element = c, username = name\<rparr> # follower_cells_block cells
          else follower_cells_block cells)"

definition getFollowerElements_block :: "cell list \<Rightarrow> follower list" where
  "getFollowerElements_block cells = follower_cells_block cells"

text \<open>
  \<open>getFollowerElements\<close> of the popup version: \<open>i\<close> is one more name that is not a
  follower, and the list collected is filtered through the \<^verbatim>\<open>seen\<close> set.
\<close>

definition reserved_names_popup :: "string list" where
  "reserved_names_popup =
     [''home'', ''explore'', ''notifications'', ''messages'', ''settings'', ''i'']"

fun follower_cells_popup :: "cell list \<Rightarrow> follower list" where
  "follower_cells_popup [] = []"
| "follower_cells_popup (c # cells) =
     (case (case userLink c of None \<Rightarrow> None | Some href \<Rightarrow> href_username href) of
        None \<Rightarrow> follower_cells_popup cells
      | Some name \<Rightarrow>
          if name \<noteq> [] \<and> name \<notin> set reserved_names_popup
          then \<lparr>element = c, username = name\<rparr> # follower_cells_popup cells
          else follower_cells_popup cells)"

fun dedupe :: "string set \<Rightarrow> follower list \<Rightarrow> follower list" where
  "dedupe seen [] = []"
| "dedupe seen (f # fs) =
     (if username f \<in> seen then dedupe seen fs
      else f # dedupe (insert (username f) seen) fs)"

definition getFollowerElements_popup :: "cell list \<Rightarrow> follower list" where
  "getFollowerElements_popup cells = dedupe {} (follower_cells_popup cells)"

text \<open>
  The loop over the followers list, the same text in both versions. \<open>followers_at i\<close>
  is what \<^verbatim>\<open>await getFollowerElements()\<close> returns in scan \<open>i\<close>. The rest of an
  iteration (the profile check, the removal, the pacing) neither reads nor writes
  \<open>processedUsernames\<close> and is left out; \<open>checked\<close> lists the usernames whose check
  was started, in order.
\<close>

record follower_state =
  processedUsernames :: "string set"
  consecutiveEmpty :: nat
  totalChecked :: nat
  checked :: "string list"
  scans :: nat

definition follower_initial_state :: follower_state where
  "follower_initial_state =
     \<lparr>processedUsernames = {}, consecutiveEmpty = 0, totalChecked = 0, checked = [],
      scans = 0\<rparr>"

definition maxEmptyAttempts :: nat where
  "maxEmptyAttempts = 3"

fun follower_loop :: "(nat \<Rightarrow> follower list) \<Rightarrow> nat \<Rightarrow> follower_state \<Rightarrow> follower_state run_result" where
  "follower_loop followers_at 0 st = OutOfFuel st"
| "follower_loop followers_at (Suc fuel) st =
     (let followers = followers_at (scans st);
          st0 = st\<lparr>scans := scans st + 1\<rparr>;
          newFollowers = filter (\<lambda>f. username f \<notin> processedUsernames st0) followers
      in case newFollowers of
           [] \<Rightarrow>
             (let st1 = st0\<lparr>consecutiveEmpty := consecutiveEmpty st0 + 1\<rparr>
              in if consecutiveEmpty st1 \<ge> maxEmptyAttempts then Returned st1
                 else follower_loop followers_at fuel st1)
         | follower # others \<Rightarrow>
             follower_loop followers_at fuel
               (st0\<lparr>consecutiveEmpty := 0,
                    processedUsernames := insert (username follower) (processedUsernames st0),
                    totalChecked := totalChecked st0 + 1,
                    checked := checked st0 @ [username follower]\<rparr>))"

text \<open>
  A run of each script on a page: \<open>page i\<close> lists the cells the document holds when
  scan \<open>i\<close> reads it.
\<close>

definition follower_run_block :: "(nat \<Rightarrow> cell list) \<Rightarrow> nat \<Rightarrow> follower_state run_result" where
  "follower_run_block page fuel =
     follower_loop (\<lambda>i. getFollowerElements_block (page i)) fuel follower_initial_state"

definition follower_run_popup :: "(nat \<Rightarrow> cell list) \<Rightarrow> nat \<Rightarrow> follower_state run_result" where
  "follower_run_popup page fuel =
     follower_loop (\<lambda>i. getFollowerElements_popup (page i)) fuel follower_initial_state"

text \<open>
  No username was checked twice, the usernames checked are those of
  \<open>processedUsernames\<close>, and \<open>totalChecked\<close> is their number.
\<close>

definition checked_once :: "follower_state \<Rightarrow> bool" where
  "checked_once st =
     (distinct (checked st) \<and> set (checked st) = processedUsernames st
      \<and> totalChecked st = length (checked st))"

section \<open>Feeds\<close>

text \<open>
  What the claims about whole runs assume of the host, as tests on the answers of one
  scan cycle. \<open>scan_empty\<close>: the snapshot at the head of the loop is captured and holds
  no tweet, and the scroll resolves. \<open>action_succeeds\<close>: the snapshot holds a tweet,
  every control the flow of the first tweet looks for is found, and every host call of
  the cycle resolves.
\<close>

definition scan_empty :: "host_cycle \<Rightarrow> bool" where
  "scan_empty h =
     (case take_snapshot h 0 of
        Inl e \<Rightarrow> False
      | Inr snapshot \<Rightarrow>
          findTweetElements snapshot = Inr [] \<and> evaluate_script h 0 = Inr ())"

definition ordinary_succeeds :: "host_cycle \<Rightarrow> jsval \<Rightarrow> tweet \<Rightarrow> bool" where
  "ordinary_succeeds h snapshot tw =
     (case findMoreButtonInTweet snapshot tw of
        Inr (Some moreButtonUid) \<Rightarrow>
          click h 0 moreButtonUid = Inr () \<and>
          (case take_snapshot h 1 of
             Inr menuSnapshot \<Rightarrow>
               (case findDeleteButton menuSnapshot of
                  Inr (Some deleteButtonUid) \<Rightarrow>
                    click h 1 deleteButtonUid = Inr () \<and> handle_dialog h = Inr ()
                | _ \<Rightarrow> False)
           | _ \<Rightarrow> False)
      | _ \<Rightarrow> False)"

definition repost_succeeds :: "host_cycle \<Rightarrow> jsval \<Rightarrow> tweet \<Rightarrow> bool" where
  "repost_succeeds h snapshot tw =
     (case findUnretweetButton snapshot tw of
        Inr (Some unretweetUid) \<Rightarrow>
          click h 0 unretweetUid = Inr () \<and>
          (case take_snapshot h 1 of
             Inr confirmSnapshot \<Rightarrow>
               (case findUnretweetConfirmButton confirmSnapshot of
                  Inr (Some confirmUid) \<Rightarrow> click h 1 confirmUid = Inr ()
                | _ \<Rightarrow> False)
           | _ \<Rightarrow> False)
      | _ \<Rightarrow> False)"

definition action_succeeds :: "host_cycle \<Rightarrow> bool" where
  "action_succeeds h =
     (case take_snapshot h 0 of
        Inl e \<Rightarrow> False
      | Inr snapshot \<Rightarrow>
          (case findTweetElements snapshot of
             Inr (tw # others) \<Rightarrow>
               (if truthy (isRepost tw) then repost_succeeds h snapshot tw
                else ordinary_succeeds h snapshot tw)
               \<and> evaluate_script h 0 = Inr ()
           | _ \<Rightarrow> False))"

text \<open>
  \<open>catch_recovers\<close>: the value thrown is one whose \<^verbatim>\<open>message\<close> can be read, and the
  recovery scroll of the \<^verbatim>\<open>catch\<close> block and the scroll that ends the iteration
  resolve.
\<close>

definition catch_recovers :: "host_cycle \<Rightarrow> error \<Rightarrow> bool" where
  "catch_recovers h e =
     (read_message e = Inr () \<and> evaluate_script h 0 = Inr () \<and> evaluate_script h 1 = Inr ())"

text \<open>
  The ways the regular flow can fail on a tweet, read off the answers of the cycle: the
  More button or the Delete item is not found, or a finder throws, or a click, the menu
  snapshot or the dialog is rejected, and what was thrown is caught and recovered
  from. When every step resolves there is no failure.
\<close>

definition ordinary_fails :: "host_cycle \<Rightarrow> jsval \<Rightarrow> tweet \<Rightarrow> bool" where
  "ordinary_fails h snapshot tw =
     (case findMoreButtonInTweet snapshot tw of
        Inl e \<Rightarrow> catch_recovers h e
      | Inr None \<Rightarrow> True
      | Inr (Some moreButtonUid) \<Rightarrow>
          (case click h 0 moreButtonUid of
             Inl e \<Rightarrow> catch_recovers h e
           | Inr _ \<Rightarrow>
               (case take_snapshot h 1 of
                  Inl e \<Rightarrow> catch_recovers h e
                | Inr menuSnapshot \<Rightarrow>
                    (case findDeleteButton menuSnapshot of
                       Inl e \<Rightarrow> catch_recovers h e
                     | Inr None \<Rightarrow> True
                     | Inr (Some deleteButtonUid) \<Rightarrow>
                         (case click h 1 deleteButtonUid of
                            Inl e \<Rightarrow> catch_recovers h e
                          | Inr _ \<Rightarrow>
                              (case handle_dialog h of
                                 Inl e \<Rightarrow> catch_recovers h e
                               | Inr _ \<Rightarrow> False))))))"

text \<open>
  The same for a repost. A control that is not found ends the \<^verbatim>\<open>try\<close> block
  without \<^verbatim>\<open>continue\<close>, so the scroll that ends the iteration has to resolve.
\<close>

definition repost_fails :: "host_cycle \<Rightarrow> jsval \<Rightarrow> tweet \<Rightarrow> bool" where
  "repost_fails h snapshot tw =
     (case findUnretweetButton snapshot tw of
        Inl e \<Rightarrow> catch_recovers h e
      | Inr None \<Rightarrow> evaluate_script h 0 = Inr ()
      | Inr (Some unretweetUid) \<Rightarrow>
          (case click h 0 unretweetUid of
             Inl e \<Rightarrow> catch_recovers h e
           | Inr _ \<Rightarrow>
               (case take_snapshot h 1 of
                  Inl e \<Rightarrow> catch_recovers h e
                | Inr confirmSnapshot \<Rightarrow>
                    (case findUnretweetConfirmButton confirmSnapshot of
                       Inl e \<Rightarrow> catch_recovers h e
                     | Inr None \<Rightarrow> evaluate_script h 0 = Inr ()
                     | Inr (Some confirmUid) \<Rightarrow>
                         (case click h 1 confirmUid of
                            Inl e \<Rightarrow> catch_recovers h e
                          | Inr _ \<Rightarrow> False)))))"

text \<open>
  \<open>action_fails\<close>: the snapshot at the head of the loop is captured and holds a tweet,
  and the flow of the first tweet fails in one of these ways.
\<close>

definition action_fails :: "host_cycle \<Rightarrow> bool" where
  "action_fails h =
     (case take_snapshot h 0 of
        Inl e \<Rightarrow> False
      | Inr snapshot \<Rightarrow>
          (case findTweetElements snapshot of
             Inr (tw # others) \<Rightarrow>
               (if truthy (isRepost tw) then repost_fails h snapshot tw
                else ordinary_fails h snapshot tw)
           | _ \<Rightarrow> False))"

section \<open>Example snapshots and hosts\<close>

text \<open>
  Concrete inputs for the theorems below. A snapshot in the form the finders read is
  an object whose \<^verbatim>\<open>content\<close> is the text of the page, one element per line.
\<close>

definition text_snapshot :: "string \<Rightarrow> jsval" where
  "text_snapshot s = JObj [(''content'', JStr s)]"

text \<open>A host cycle in which every call resolves; \<open>s0\<close>, \<open>s1\<close>, \<open>s2\<close> are the snapshots.\<close>

definition resolving_cycle :: "jsval \<Rightarrow> jsval \<Rightarrow> jsval \<Rightarrow> host_cycle" where
  "resolving_cycle s0 s1 s2 =
     \<lparr>take_snapshot = (\<lambda>k. Inr (if k = 0 then s0 else if k = 1 then s1 else s2)),
      click = (\<lambda>k u. Inr ()),
      handle_dialog = Inr (),
      evaluate_script = (\<lambda>k. Inr ())\<rparr>"

definition post_snapshot :: jsval where
  \<open>post_snapshot = text_snapshot ''article "hello" uid="1_1"\<newline>  button "More" uid="1_2"''\<close>

definition menu_snapshot :: jsval where
  \<open>menu_snapshot = text_snapshot ''menuitem "Delete" uid="2_1"''\<close>

definition empty_snapshot :: jsval where
  \<open>empty_snapshot = text_snapshot ''main uid="0_1"''\<close>

definition no_button_line :: string where
  \<open>no_button_line = ''article "hello" uid="1_1"''\<close>

definition no_button_snapshot :: jsval where
  "no_button_snapshot = text_snapshot no_button_line"

definition empty_cycle :: host_cycle where
  "empty_cycle = resolving_cycle empty_snapshot empty_snapshot empty_snapshot"

text \<open>One post that is deleted, then nothing.\<close>

definition one_post_feed :: "nat \<Rightarrow> host_cycle" where
  "one_post_feed i =
     (if i = 0 then resolving_cycle post_snapshot menu_snapshot empty_snapshot else empty_cycle)"

text \<open>
  A cycle in which the page is read and shows a post, every click is rejected with \<open>e\<close>,
  and the scrolls resolve.
\<close>

definition click_rejected_cycle :: "error \<Rightarrow> host_cycle" where
  "click_rejected_cycle e =
     \<lparr>take_snapshot = (\<lambda>k. Inr post_snapshot),
      click = (\<lambda>k u. Inl e),
      handle_dialog = Inr (),
      evaluate_script = (\<lambda>k. Inr ())\<rparr>"


text \<open>A post without a More button that stays on the page.\<close>

definition stuck_feed :: "nat \<Rightarrow> host_cycle" where
  "stuck_feed i = resolving_cycle no_button_snapshot empty_snapshot empty_snapshot"


text \<open>
  Two tweets, each with its own More button; the text of the first tweet holds the
  digit that is the uid of the second.
\<close>

definition two_tweets_snapshot :: jsval where
  \<open>two_tweets_snapshot = text_snapshot
     ''article "Top 8 tips" uid="4"\<newline>  button "More" uid="5"\<newline>article "hello" uid="8"\<newline>  button "More" uid="9"''\<close>

text \<open>
  A snapshot whose \<^verbatim>\<open>content\<close> is a list of content blocks, the shape of a tool
  result of the Model Context Protocol.
\<close>

definition content_blocks_snapshot :: jsval where
  \<open>content_blocks_snapshot =
     JObj [(''content'',
            JArr [JObj [(''type'', JStr ''text''), (''text'', JStr ''article uid="1_1"'')]])]\<close>

text \<open>
  Playwright: a post, its menu, and a page on which no confirmation button shows up
  after the click on Delete; then nothing.
\<close>

definition pw_post_snapshot :: jsval where
  \<open>pw_post_snapshot = text_snapshot ''article "hello" ref="e1"\<newline>  button "More" ref="e2"''\<close>

definition pw_menu_snapshot :: jsval where
  \<open>pw_menu_snapshot = text_snapshot ''menuitem "Delete" ref="e3"''\<close>

definition pw_no_dialog_snapshot :: jsval where
  \<open>pw_no_dialog_snapshot = text_snapshot ''heading "Home" ref="e4"''\<close>

definition pw_empty_snapshot :: jsval where
  \<open>pw_empty_snapshot = text_snapshot ''main ref="e0"''\<close>

definition pw_unconfirmed_host :: host where
  "pw_unconfirmed_host =
     \<lparr>navigate_page = (\<lambda>url. Inr ()),
      cycles = (\<lambda>i.
        if i = 0 then resolving_cycle pw_post_snapshot pw_menu_snapshot pw_no_dialog_snapshot
        else resolving_cycle pw_empty_snapshot pw_empty_snapshot pw_empty_snapshot)\<rparr>"

text \<open>
  The skill description's flow on a page with two tweets, then nothing;
  \<open>more_button_of\<close> stands for the undefined \<^verbatim>\<open>findMoreButton\<close>.
\<close>

definition more_button_of :: "tweet \<Rightarrow> string option" where
  "more_button_of tw = Some (uid tw @ ''_more'')"

definition two_tweets_tab_host :: tab_host where
  "two_tweets_tab_host =
     \<lparr>navigateToTab = (\<lambda>contentType. Inr ()),
      tab_cycles = (\<lambda>i.
        \<lparr>takeSnapshot = Inr (if i = 0 then two_tweets_snapshot else empty_snapshot),
         item = (\<lambda>j. \<lparr>item_click = (\<lambda>k u. Inr ()),
                       item_takeSnapshot = Inr menu_snapshot,
                       item_handleDialog = Inr ()\<rparr>),
         scrollPage = Inr ()\<rparr>)\<rparr>"

text \<open>Two cells of the followers list whose links lead to the same profile.\<close>

definition two_cells_one_user :: "cell list" where
  "two_cells_one_user =
     [\<lparr>cell_id = 0, userLink = Some ''/alice''\<rparr>, \<lparr>cell_id = 1, userLink = Some ''/alice''\<rparr>]"

section \<open>Profile URL: verification\<close>

lemma get_member_CONTENT_TYPES_other:
  assumes "contentType \<notin> fst ` set CONTENT_TYPES"
    and "contentType \<notin> fst ` set Object_prototype"
  shows "get_member CONTENT_TYPES contentType = JUndefined"
proof -
  have "map_of CONTENT_TYPES contentType = None"
    using assms(1) by (simp add: map_of_eq_None_iff)
  moreover have "map_of Object_prototype contentType = None"
    using assms(2) by (simp add: map_of_eq_None_iff)
  ultimately show ?thesis by (simp add: get_member_def)
qed

text \<open>
  C8, as amended. \<open>getProfileUrl\<close> returns the base profile URL for \<open>POSTS\<close>, the
  base URL followed by \<open>/with_replies\<close> for \<open>REPLIES\<close>, and the base URL for every
  content type that is neither a key of \<open>CONTENT_TYPES\<close> nor the name of a property
  the table inherits from \<^verbatim>\<open>Object.prototype\<close>.
\<close>

theorem getProfileUrl_suffix:
  "getProfileUrl user ''POSTS'' = ''https://x.com/'' @ user
   \<and> getProfileUrl user ''REPLIES'' = ''https://x.com/'' @ user @ ''/with_replies''
   \<and> (contentType \<notin> fst ` set CONTENT_TYPES \<and> contentType \<notin> fst ` set Object_prototype
        \<longrightarrow> getProfileUrl user contentType = ''https://x.com/'' @ user)"
proof (intro conjI impI)
  show "getProfileUrl user ''POSTS'' = ''https://x.com/'' @ user"
    by (simp add: getProfileUrl_def get_member_def CONTENT_TYPES_def js_or_def)
  show "getProfileUrl user ''REPLIES'' = ''https://x.com/'' @ user @ ''/with_replies''"
    by (simp add: getProfileUrl_def get_member_def CONTENT_TYPES_def js_or_def)
next
  assume "contentType \<notin> fst ` set CONTENT_TYPES \<and> contentType \<notin> fst ` set Object_prototype"
  then have "get_member CONTENT_TYPES contentType = JUndefined"
    by (simp add: get_member_CONTENT_TYPES_other)
  then show "getProfileUrl user contentType = ''https://x.com/'' @ user"
    by (simp add: getProfileUrl_def js_or_def)
qed

text \<open>The fallback at a content type that is in neither table.\<close>

theorem getProfileUrl_suffix_witness:
  "''LIKES'' \<notin> fst ` set CONTENT_TYPES \<and> ''LIKES'' \<notin> fst ` set Object_prototype
   \<and> getProfileUrl ''alice'' ''LIKES'' = ''https://x.com/alice''"
  using getProfileUrl_suffix [of "''alice''" "''LIKES''"]
  by (simp add: CONTENT_TYPES_def Object_prototype_def)

text \<open>
  C8 as stated fails: \<open>constructor\<close> is not a key of the table, but the lookup finds
  the inherited function, which is truthy, and its text is appended to the base URL.
\<close>

theorem getProfileUrl_inherited_key_counterexample:
  "''constructor'' \<notin> fst ` set CONTENT_TYPES
   \<and> getProfileUrl ''alice'' ''constructor'' \<noteq> ''https://x.com/alice''"
  by (simp add: getProfileUrl_def get_member_def CONTENT_TYPES_def Object_prototype_def js_or_def)

section \<open>Classification: verification\<close>

text \<open>
  C7. The result of \<open>isRepost\<close> depends on the text of the tweet only, and a tweet
  whose text holds none of the three markers is not a repost: the result is falsy
  and the \<^verbatim>\<open>try\<close> block takes the regular deletion flow.
\<close>

theorem isRepost_classification:
  "(tweet_text ta = tweet_text tb \<longrightarrow> isRepost ta = isRepost tb)
   \<and> (\<not> str_includes (tweet_text tw) ''Reposted''
        \<and> \<not> str_includes (tweet_text tw) ''retweeted''
        \<and> \<not> str_includes (tweet_text tw) ''repost''
      \<longrightarrow> \<not> truthy (isRepost tw)
          \<and> try_block h snapshot n tw st = ordinary_path h snapshot n tw st)"
  by (simp add: isRepost_def try_block_def)

theorem isRepost_classification_witness:
  "isRepost \<lparr>uid = ''1_1'', tweet_text = ''article hello''\<rparr>
     = isRepost \<lparr>uid = ''1_2'', tweet_text = ''article hello''\<rparr>
   \<and> \<not> str_includes ''article hello'' ''Reposted''
   \<and> \<not> str_includes ''article hello'' ''retweeted''
   \<and> \<not> str_includes ''article hello'' ''repost''
   \<and> \<not> truthy (isRepost \<lparr>uid = ''1_1'', tweet_text = ''article hello''\<rparr>)"
proof -
  have no_marker:
    "\<not> str_includes ''article hello'' ''Reposted''
     \<and> \<not> str_includes ''article hello'' ''retweeted''
     \<and> \<not> str_includes ''article hello'' ''repost''"
    by simp
  have same_text:
    "tweet_text \<lparr>uid = ''1_1'', tweet_text = ''article hello''\<rparr>
       = tweet_text \<lparr>uid = ''1_2'', tweet_text = ''article hello''\<rparr>"
    by simp
  from isRepost_classification
    [where ta = "\<lparr>uid = ''1_1'', tweet_text = ''article hello''\<rparr>"
       and tb = "\<lparr>uid = ''1_2'', tweet_text = ''article hello''\<rparr>"
       and tw = "\<lparr>uid = ''1_1'', tweet_text = ''article hello''\<rparr>"
       and h = undefined and snapshot = JNull and n = 0 and st = initial_state]
  show ?thesis using no_marker same_text by auto
qed

section \<open>Inactive followers: verification\<close>

text \<open>
  C9. \<open>isInactive\<close> is false when the date is absent, and it is true only for a
  known, valid date that lies more than 180 days before the clock reading.
\<close>

theorem isInactive_needs_known_date:
  "isInactive now None = False
   \<and> (isInactive now lastTweetDate
        \<longrightarrow> (\<exists>t. lastTweetDate = Some (Date t) \<and> now - t > 180 * (1000 * 60 * 60 * 24)))"
  by (auto simp: isInactive_def inactiveDays_def Let_def split: option.splits jsdate.splits)

theorem isInactive_needs_known_date_witness:
  "isInactive 20000000000 (Some (Date 0))
   \<and> (\<exists>t. Some (Date 0) = Some (Date t) \<and> 20000000000 - t > 180 * (1000 * 60 * 60 * 24))"
  using isInactive_needs_known_date [of 20000000000 "Some (Date 0)"]
  by (simp add: isInactive_def inactiveDays_def)

section \<open>The pagination loop: verification\<close>

declare deleteContent_loop.simps(2) [simp del]
declare deleteContent_loop_pw.simps(2) [simp del]
declare deleteTweets_loop.simps(2) [simp del]
declare follower_loop.simps(2) [simp del]

subsection \<open>The counters do not depend on the state the block starts in\<close>

lemma repost_path_counters:
  "fst (repost_path h s n tw st) = fst (repost_path h s 0 tw initial_state)
   \<and> deletedCount (snd (repost_path h s n tw st))
       = deletedCount st + deletedCount (snd (repost_path h s 0 tw initial_state))
   \<and> consecutiveEmptyAttempts (snd (repost_path h s n tw st)) = consecutiveEmptyAttempts st
   \<and> scan_cycles (snd (repost_path h s n tw st)) = scan_cycles st"
  unfolding repost_path_def log_click_def initial_state_def Let_def
  by (simp split: sum.split option.split)

lemma ordinary_path_counters:
  "fst (ordinary_path h s n tw st) = fst (ordinary_path h s 0 tw initial_state)
   \<and> deletedCount (snd (ordinary_path h s n tw st))
       = deletedCount st + deletedCount (snd (ordinary_path h s 0 tw initial_state))
   \<and> consecutiveEmptyAttempts (snd (ordinary_path h s n tw st)) = consecutiveEmptyAttempts st
   \<and> scan_cycles (snd (ordinary_path h s n tw st)) = scan_cycles st"
  unfolding ordinary_path_def log_click_def initial_state_def Let_def
  by (simp split: sum.split option.split)

lemma try_block_counters:
  "fst (try_block h s n tw st) = fst (try_block h s 0 tw initial_state)
   \<and> deletedCount (snd (try_block h s n tw st))
       = deletedCount st + deletedCount (snd (try_block h s 0 tw initial_state))
   \<and> consecutiveEmptyAttempts (snd (try_block h s n tw st)) = consecutiveEmptyAttempts st
   \<and> scan_cycles (snd (try_block h s n tw st)) = scan_cycles st"
  using repost_path_counters [of h s n tw st] ordinary_path_counters [of h s n tw st]
  by (simp add: try_block_def)

subsection \<open>A successful action is counted once\<close>

lemma repost_path_succeeds:
  assumes "repost_succeeds h snapshot tw"
  shows "fst (repost_path h snapshot 0 tw initial_state) = Normal
         \<and> deletedCount (snd (repost_path h snapshot 0 tw initial_state)) = 1"
  using assms
  unfolding repost_path_def repost_succeeds_def log_click_def initial_state_def Let_def
  by (simp split: sum.split_asm option.split_asm)

lemma ordinary_path_succeeds:
  assumes "ordinary_succeeds h snapshot tw"
  shows "fst (ordinary_path h snapshot 0 tw initial_state) = Normal
         \<and> deletedCount (snd (ordinary_path h snapshot 0 tw initial_state)) = 1"
  using assms
  unfolding ordinary_path_def ordinary_succeeds_def log_click_def initial_state_def Let_def
  by (simp split: sum.split_asm option.split_asm)

lemma try_block_succeeds:
  assumes "if truthy (isRepost tw) then repost_succeeds h snapshot tw
           else ordinary_succeeds h snapshot tw"
  shows "fst (try_block h snapshot 0 tw initial_state) = Normal
         \<and> deletedCount (snd (try_block h snapshot 0 tw initial_state)) = 1"
  using assms repost_path_succeeds [of h snapshot tw] ordinary_path_succeeds [of h snapshot tw]
  by (simp add: try_block_def split: if_split_asm)

lemma action_succeeds_cases:
  assumes "action_succeeds h"
  obtains snapshot tw others where "take_snapshot h 0 = Inr snapshot"
    and "findTweetElements snapshot = Inr (tw # others)"
    and "fst (try_block h snapshot 0 tw initial_state) = Normal"
    and "deletedCount (snd (try_block h snapshot 0 tw initial_state)) = 1"
    and "evaluate_script h 0 = Inr ()"
proof -
  from assms obtain snapshot where snap: "take_snapshot h 0 = Inr snapshot"
    by (cases "take_snapshot h 0") (simp_all add: action_succeeds_def)
  from assms snap obtain tws where tws: "findTweetElements snapshot = Inr tws"
    by (cases "findTweetElements snapshot") (simp_all add: action_succeeds_def)
  from assms snap tws obtain tw others where cons: "tws = tw # others"
    by (cases tws) (simp_all add: action_succeeds_def)
  from assms snap tws cons
  have ok: "if truthy (isRepost tw) then repost_succeeds h snapshot tw
            else ordinary_succeeds h snapshot tw"
    and scroll: "evaluate_script h 0 = Inr ()"
    by (simp_all add: action_succeeds_def)
  from try_block_succeeds [OF ok] snap tws cons scroll that show thesis by blast
qed

lemma repost_path_fails:
  assumes "repost_fails h snapshot tw"
  shows "deletedCount (snd (repost_path h snapshot 0 tw initial_state)) = 0
         \<and> after_try h (fst (repost_path h snapshot 0 tw initial_state)) = Inr ()"
  using assms
  unfolding repost_path_def repost_fails_def catch_recovers_def after_try_def log_click_def
    initial_state_def Let_def
  by (auto split: sum.splits option.splits)

lemma ordinary_path_fails:
  assumes "ordinary_fails h snapshot tw"
  shows "deletedCount (snd (ordinary_path h snapshot 0 tw initial_state)) = 0
         \<and> after_try h (fst (ordinary_path h snapshot 0 tw initial_state)) = Inr ()"
  using assms
  unfolding ordinary_path_def ordinary_fails_def catch_recovers_def after_try_def log_click_def
    initial_state_def Let_def
  by (auto split: sum.splits option.splits)

lemma try_block_fails:
  assumes "if truthy (isRepost tw) then repost_fails h snapshot tw
           else ordinary_fails h snapshot tw"
  shows "deletedCount (snd (try_block h snapshot 0 tw initial_state)) = 0
         \<and> after_try h (fst (try_block h snapshot 0 tw initial_state)) = Inr ()"
  using assms repost_path_fails [of h snapshot tw] ordinary_path_fails [of h snapshot tw]
  by (simp add: try_block_def split: if_split_asm)

lemma action_fails_cases:
  assumes "action_fails h"
  obtains snapshot tw others where "take_snapshot h 0 = Inr snapshot"
    and "findTweetElements snapshot = Inr (tw # others)"
    and "deletedCount (snd (try_block h snapshot 0 tw initial_state)) = 0"
    and "after_try h (fst (try_block h snapshot 0 tw initial_state)) = Inr ()"
proof -
  from assms obtain snapshot where snap: "take_snapshot h 0 = Inr snapshot"
    by (cases "take_snapshot h 0") (simp_all add: action_fails_def)
  from assms snap obtain tws where tws: "findTweetElements snapshot = Inr tws"
    by (cases "findTweetElements snapshot") (simp_all add: action_fails_def)
  from assms snap tws obtain tw others where cons: "tws = tw # others"
    by (cases tws) (simp_all add: action_fails_def)
  from assms snap tws cons
  have f: "if truthy (isRepost tw) then repost_fails h snapshot tw
           else ordinary_fails h snapshot tw"
    by (simp add: action_fails_def)
  from try_block_fails [OF f] snap tws cons that show thesis by blast
qed


subsection \<open>One scan cycle\<close>

text \<open>A cycle with a tweet, whether its action succeeds or fails.\<close>

lemma loop_item_step:
  assumes "action_succeeds (cyc (scan_cycles st)) \<or> action_fails (cyc (scan_cycles st))"
  shows "\<exists>st'. deleteContent_loop cyc (Suc fuel) st = deleteContent_loop cyc fuel st'
           \<and> deletedCount st' = deletedCount st
                + (if action_succeeds (cyc (scan_cycles st)) then 1 else 0)
           \<and> consecutiveEmptyAttempts st' = 0
           \<and> scan_cycles st' = scan_cycles st + 1"
proof -
  let ?h = "cyc (scan_cycles st)"
  let ?st2 = "st\<lparr>scan_cycles := scan_cycles st + 1, snapshots_taken := snapshots_taken st + 1,
                  consecutiveEmptyAttempts := 0\<rparr>"
  have "\<exists>snapshot tw others. take_snapshot ?h 0 = Inr snapshot
          \<and> findTweetElements snapshot = Inr (tw # others)
          \<and> after_try ?h (fst (try_block ?h snapshot 0 tw initial_state)) = Inr ()
          \<and> deletedCount (snd (try_block ?h snapshot 0 tw initial_state))
               = (if action_succeeds ?h then 1 else 0)"
  proof (cases "action_succeeds ?h")
    case True
    then show ?thesis
      by (rule action_succeeds_cases) (auto simp: after_try_def True)
  next
    case False
    with assms have "action_fails ?h" by simp
    then show ?thesis
      by (rule action_fails_cases) (auto simp: False)
  qed
  then obtain snapshot tw others where
    snap: "take_snapshot ?h 0 = Inr snapshot"
    and tws: "findTweetElements snapshot = Inr (tw # others)"
    and after: "after_try ?h (fst (try_block ?h snapshot 0 tw initial_state)) = Inr ()"
    and gain: "deletedCount (snd (try_block ?h snapshot 0 tw initial_state))
               = (if action_succeeds ?h then 1 else 0)"
    by blast
  let ?r = "try_block ?h snapshot (snapshots_taken ?st2) tw ?st2"
  have c: "fst ?r = fst (try_block ?h snapshot 0 tw initial_state)"
    and d: "deletedCount (snd ?r)
              = deletedCount st + deletedCount (snd (try_block ?h snapshot 0 tw initial_state))"
    and e: "consecutiveEmptyAttempts (snd ?r) = 0"
    and s: "scan_cycles (snd ?r) = scan_cycles st + 1"
    using try_block_counters [of ?h snapshot "snapshots_taken ?st2" tw ?st2] by simp_all
  have "deleteContent_loop cyc (Suc fuel) st = deleteContent_loop cyc fuel (snd ?r)"
    using snap tws after c by (simp add: deleteContent_loop.simps(2) Let_def)
  with d e s gain show ?thesis by auto
qed

text \<open>A cycle whose snapshot holds no tweet.\<close>

lemma loop_empty_step:
  assumes "scan_empty (cyc (scan_cycles st))"
  shows "deleteContent_loop cyc (Suc fuel) st =
           (if consecutiveEmptyAttempts st + 1 \<ge> MAX_EMPTY_ATTEMPTS
            then Returned (st\<lparr>scan_cycles := scan_cycles st + 1,
                          snapshots_taken := snapshots_taken st + 1,
                          consecutiveEmptyAttempts := consecutiveEmptyAttempts st + 1\<rparr>)
            else deleteContent_loop cyc fuel
                   (st\<lparr>scan_cycles := scan_cycles st + 1,
                          snapshots_taken := snapshots_taken st + 1,
                          consecutiveEmptyAttempts := consecutiveEmptyAttempts st + 1\<rparr>))"
proof -
  from assms obtain snapshot where "take_snapshot (cyc (scan_cycles st)) 0 = Inr snapshot"
    and "findTweetElements snapshot = Inr []"
    and "evaluate_script (cyc (scan_cycles st)) 0 = Inr ()"
    by (cases "take_snapshot (cyc (scan_cycles st)) 0") (simp_all add: scan_empty_def)
  then show ?thesis
    by (simp add: deleteContent_loop.simps(2) Let_def)
qed

text \<open>Three empty scans in a row end the loop, and fewer do not.\<close>

lemma loop_empty_phase:
  assumes e: "\<forall>i\<ge>scan_cycles st. scan_empty (cyc i)"
    and c: "consecutiveEmptyAttempts st = 0"
  shows "\<exists>st'. deleteContent_loop cyc (Suc (Suc (Suc fuel))) st = Returned st'
           \<and> deletedCount st' = deletedCount st
           \<and> scan_cycles st' = scan_cycles st + 3"
    and "\<exists>st'. deleteContent_loop cyc (Suc 0) st = OutOfFuel st'"
    and "\<exists>st'. deleteContent_loop cyc (Suc (Suc 0)) st = OutOfFuel st'"
proof -
  let ?st1 = "st\<lparr>scan_cycles := scan_cycles st + 1,
                   snapshots_taken := snapshots_taken st + 1,
                   consecutiveEmptyAttempts := consecutiveEmptyAttempts st + 1\<rparr>"
  let ?st2 = "?st1\<lparr>scan_cycles := scan_cycles ?st1 + 1,
                   snapshots_taken := snapshots_taken ?st1 + 1,
                   consecutiveEmptyAttempts := consecutiveEmptyAttempts ?st1 + 1\<rparr>"
  let ?st3 = "?st2\<lparr>scan_cycles := scan_cycles ?st2 + 1,
                   snapshots_taken := snapshots_taken ?st2 + 1,
                   consecutiveEmptyAttempts := consecutiveEmptyAttempts ?st2 + 1\<rparr>"
  have e0: "scan_empty (cyc (scan_cycles st))" using e by simp
  have e1: "scan_empty (cyc (scan_cycles ?st1))" using e by simp
  have e2: "scan_empty (cyc (scan_cycles ?st2))" using e by simp
  have s1: "deleteContent_loop cyc (Suc f) st = deleteContent_loop cyc f ?st1" for f
    using loop_empty_step [of cyc st f, OF e0] c by (simp add: MAX_EMPTY_ATTEMPTS_def)
  have s2: "deleteContent_loop cyc (Suc f) ?st1 = deleteContent_loop cyc f ?st2" for f
    using loop_empty_step [of cyc ?st1 f, OF e1] c by (simp add: MAX_EMPTY_ATTEMPTS_def)
  have s3: "deleteContent_loop cyc (Suc f) ?st2 = Returned ?st3" for f
    using loop_empty_step [of cyc ?st2 f, OF e2] c by (simp add: MAX_EMPTY_ATTEMPTS_def)
  show "\<exists>st'. deleteContent_loop cyc (Suc (Suc (Suc fuel))) st = Returned st'
           \<and> deletedCount st' = deletedCount st
           \<and> scan_cycles st' = scan_cycles st + 3"
    using s1 s2 s3 by simp
  show "\<exists>st'. deleteContent_loop cyc (Suc 0) st = OutOfFuel st'"
    using s1 by simp
  show "\<exists>st'. deleteContent_loop cyc (Suc (Suc 0)) st = OutOfFuel st'"
    using s1 s2 by simp
qed

subsection \<open>Whole runs\<close>

text \<open>
  A feed of \<open>K\<close> cycles with a tweet followed by empty scans: the loop returns after
  \<open>K + 3\<close> cycles, and the counter has grown by the number of cycles whose action
  succeeded.
\<close>

lemma loop_run_returns:
  assumes "\<forall>i<K. action_succeeds (cyc (scan_cycles st + i))
                 \<or> action_fails (cyc (scan_cycles st + i))"
    and "\<forall>i\<ge>scan_cycles st + K. scan_empty (cyc i)"
    and "consecutiveEmptyAttempts st = 0"
    and "K + 3 \<le> fuel"
  shows "\<exists>st'. deleteContent_loop cyc fuel st = Returned st'
           \<and> deletedCount st' = deletedCount st
                + length (filter (\<lambda>i. action_succeeds (cyc i))
                            [scan_cycles st..<scan_cycles st + K])
           \<and> scan_cycles st' = scan_cycles st + K + 3"
  using assms
proof (induction K arbitrary: st fuel)
  case 0
  then obtain f where "fuel = Suc (Suc (Suc f))"
    by (metis add_0 le_Suc_ex numeral_3_eq_3 add_Suc)
  with 0 show ?case using loop_empty_phase(1) [of st cyc f] by simp
next
  case (Suc K)
  from Suc.prems(4) obtain f where f: "fuel = Suc f" and fK: "K + 3 \<le> f"
    by (cases fuel) auto
  have "action_succeeds (cyc (scan_cycles st)) \<or> action_fails (cyc (scan_cycles st))"
    using Suc.prems(1) by (metis add.right_neutral zero_less_Suc)
  from loop_item_step [of cyc st f, OF this]
  obtain st1 where step: "deleteContent_loop cyc (Suc f) st = deleteContent_loop cyc f st1"
    and d: "deletedCount st1 = deletedCount st
              + (if action_succeeds (cyc (scan_cycles st)) then 1 else 0)"
    and c: "consecutiveEmptyAttempts st1 = 0"
    and s: "scan_cycles st1 = scan_cycles st + 1"
    by blast
  have a: "\<forall>i<K. action_succeeds (cyc (scan_cycles st1 + i))
                 \<or> action_fails (cyc (scan_cycles st1 + i))"
  proof (intro allI impI)
    fix i assume "i < K"
    then have "Suc i < Suc K" by simp
    with Suc.prems(1) have "action_succeeds (cyc (scan_cycles st + Suc i))
                            \<or> action_fails (cyc (scan_cycles st + Suc i))" by blast
    then show "action_succeeds (cyc (scan_cycles st1 + i))
               \<or> action_fails (cyc (scan_cycles st1 + i))" using s by simp
  qed
  have b: "\<forall>i\<ge>scan_cycles st1 + K. scan_empty (cyc i)"
    using Suc.prems(2) s by simp
  have range: "[scan_cycles st..<scan_cycles st + Suc K]
                 = scan_cycles st # [scan_cycles st1..<scan_cycles st1 + K]"
    using s by (simp add: upt_conv_Cons)
  from Suc.IH [of st1 f, OF a b c fK] show ?case
    using step f d s range by auto
qed

text \<open>With fewer than \<open>K + 3\<close> cycles the same run is still going.\<close>

lemma loop_run_needs_all_cycles:
  assumes "\<forall>i<K. action_succeeds (cyc (scan_cycles st + i))
                 \<or> action_fails (cyc (scan_cycles st + i))"
    and "\<forall>i\<ge>scan_cycles st + K. scan_empty (cyc i)"
    and "consecutiveEmptyAttempts st = 0"
    and "fuel < K + 3"
  shows "\<exists>st'. deleteContent_loop cyc fuel st = OutOfFuel st'"
  using assms
proof (induction K arbitrary: st fuel)
  case 0
  then have "fuel = 0 \<or> fuel = Suc 0 \<or> fuel = Suc (Suc 0)" by arith
  with 0 show ?case using loop_empty_phase(2,3) [of st cyc] by auto
next
  case (Suc K)
  show ?case
  proof (cases fuel)
    case 0
    then show ?thesis by simp
  next
    case (Suc f)
    with Suc.prems(4) have fK: "f < K + 3" by simp
    have "action_succeeds (cyc (scan_cycles st)) \<or> action_fails (cyc (scan_cycles st))"
      using Suc.prems(1) by (metis add.right_neutral zero_less_Suc)
    from loop_item_step [of cyc st f, OF this]
    obtain st1 where step: "deleteContent_loop cyc (Suc f) st = deleteContent_loop cyc f st1"
      and c: "consecutiveEmptyAttempts st1 = 0"
      and s: "scan_cycles st1 = scan_cycles st + 1"
      by blast
    have a: "\<forall>i<K. action_succeeds (cyc (scan_cycles st1 + i))
                   \<or> action_fails (cyc (scan_cycles st1 + i))"
    proof (intro allI impI)
      fix i assume "i < K"
      then have "Suc i < Suc K" by simp
      with Suc.prems(1) have "action_succeeds (cyc (scan_cycles st + Suc i))
                              \<or> action_fails (cyc (scan_cycles st + Suc i))" by blast
      then show "action_succeeds (cyc (scan_cycles st1 + i))
                 \<or> action_fails (cyc (scan_cycles st1 + i))" using s by simp
    qed
    have b: "\<forall>i\<ge>scan_cycles st1 + K. scan_empty (cyc i)"
      using Suc.prems(2) s by simp
    from Suc.IH [of st1 f, OF a b c fK] show ?thesis
      using step Suc by auto
  qed
qed

subsection \<open>The example feeds\<close>

lemma one_post_feed_succeeds: "action_succeeds (one_post_feed 0)"
  by code_simp

lemma empty_cycle_is_empty: "scan_empty empty_cycle"
  by code_simp

lemma no_button_cycle_fails:
  "action_fails (resolving_cycle no_button_snapshot empty_snapshot empty_snapshot)"
  by code_simp


text \<open>
  The same run seen from \<open>deleteContent\<close>: when the navigation resolves, the function
  returns \<open>K\<close> removals after \<open>K + 3\<close> scan cycles.
\<close>

lemma deleteContent_returns:
  assumes "navigate_page mcpTools (getProfileUrl user contentType) = Inr ()"
    and "\<forall>i<K. action_succeeds (cycles mcpTools i)"
    and "\<forall>i\<ge>K. scan_empty (cycles mcpTools i)"
    and "K + 3 \<le> fuel"
  shows "\<exists>st. deleteContent mcpTools fuel user contentType = Returned st
           \<and> deletedCount st = K \<and> scan_cycles st = K + 3"
proof -
  have a: "\<forall>i<K. action_succeeds (cycles mcpTools (scan_cycles initial_state + i))
                 \<or> action_fails (cycles mcpTools (scan_cycles initial_state + i))"
    using assms(2) by (simp add: initial_state_def)
  have b: "\<forall>i\<ge>scan_cycles initial_state + K. scan_empty (cycles mcpTools i)"
    using assms(3) by (simp add: initial_state_def)
  have c: "consecutiveEmptyAttempts initial_state = 0"
    by (simp add: initial_state_def)
  have all: "filter (\<lambda>i. action_succeeds (cycles mcpTools i)) [0..<K] = [0..<K]"
    using assms(2) by (simp add: filter_id_conv)
  from loop_run_returns [of K "cycles mcpTools" initial_state fuel, OF a b c assms(4)]
  show ?thesis
    using all assms(1) by (simp add: deleteContent_def initial_state_def)
qed

text \<open>
  C1. When the first \<open>K\<close> scan cycles each find a tweet whose action succeeds and every
  later scan is empty, the loop of \<open>deleteContent\<close> returns in its cycle number
  \<open>K + MAX_EMPTY_ATTEMPTS\<close> and not before, with \<open>deletedCount = K\<close>; the maximum of
  consecutive empty scans is 3.
\<close>

theorem deleteContent_loop_terminates_after_K_plus_3:
  assumes "\<forall>i<K. action_succeeds (cyc i)"
    and "\<forall>i\<ge>K. scan_empty (cyc i)"
  shows "(\<exists>st. deleteContent_loop cyc (K + MAX_EMPTY_ATTEMPTS) initial_state = Returned st
            \<and> deletedCount st = K \<and> scan_cycles st = K + MAX_EMPTY_ATTEMPTS)
         \<and> (\<forall>fuel<K + MAX_EMPTY_ATTEMPTS.
               \<exists>st. deleteContent_loop cyc fuel initial_state = OutOfFuel st)
         \<and> MAX_EMPTY_ATTEMPTS = 3"
proof -
  have a: "\<forall>i<K. action_succeeds (cyc (scan_cycles initial_state + i))
                 \<or> action_fails (cyc (scan_cycles initial_state + i))"
    using assms(1) by (simp add: initial_state_def)
  have b: "\<forall>i\<ge>scan_cycles initial_state + K. scan_empty (cyc i)"
    using assms(2) by (simp add: initial_state_def)
  have c: "consecutiveEmptyAttempts initial_state = 0"
    by (simp add: initial_state_def)
  have all: "filter (\<lambda>i. action_succeeds (cyc i)) [0..<K] = [0..<K]"
    using assms(1) by (simp add: filter_id_conv)
  from loop_run_returns [of K cyc initial_state "K + 3", OF a b c]
  have "\<exists>st. deleteContent_loop cyc (K + 3) initial_state = Returned st
            \<and> deletedCount st = K \<and> scan_cycles st = K + 3"
    using all by (simp add: initial_state_def)
  moreover have "\<exists>st. deleteContent_loop cyc fuel initial_state = OutOfFuel st"
    if "fuel < K + 3" for fuel
    using loop_run_needs_all_cycles [of K cyc initial_state fuel, OF a b c that] .
  ultimately show ?thesis by (simp add: MAX_EMPTY_ATTEMPTS_def)
qed

text \<open>One post and then an empty feed: four scan cycles, one removal.\<close>

theorem deleteContent_loop_terminates_after_K_plus_3_witness:
  "action_succeeds (one_post_feed 0) \<and> scan_empty (one_post_feed 1)
   \<and> (\<exists>st. deleteContent_loop one_post_feed 4 initial_state = Returned st
         \<and> deletedCount st = 1 \<and> scan_cycles st = 4)
   \<and> (\<exists>st. deleteContent_loop one_post_feed 3 initial_state = OutOfFuel st)"
proof -
  have a: "\<forall>i<1. action_succeeds (one_post_feed i)"
    using one_post_feed_succeeds by simp
  have b: "\<forall>i\<ge>1. scan_empty (one_post_feed i)"
    using empty_cycle_is_empty by (simp add: one_post_feed_def)
  from deleteContent_loop_terminates_after_K_plus_3 [of 1 one_post_feed, OF a b]
  have "(\<exists>st. deleteContent_loop one_post_feed 4 initial_state = Returned st
           \<and> deletedCount st = 1 \<and> scan_cycles st = 4)"
    and "\<forall>fuel<4. \<exists>st. deleteContent_loop one_post_feed fuel initial_state = OutOfFuel st"
    by (simp_all add: MAX_EMPTY_ATTEMPTS_def)
  moreover from this(2) have "\<exists>st. deleteContent_loop one_post_feed 3 initial_state = OutOfFuel st"
    by simp
  ultimately show ?thesis
    using a b by simp
qed




text \<open>
  So does a run in which every scroll resolves and the click is rejected with
  \<^verbatim>\<open>undefined\<close>: the \<^verbatim>\<open>catch\<close> block throws a \<^verbatim>\<open>TypeError\<close> when it reads
  \<^verbatim>\<open>error.message\<close>, before its scroll, and the function is left in the first cycle.
\<close>

lemma deleteContent_loop_rejected_with_undefined:
  "\<not> action_fails (click_rejected_cycle (Thrown JUndefined))
   \<and> deleteContent_loop (\<lambda>i. click_rejected_cycle (Thrown JUndefined)) 1 initial_state =
     Rejected TypeError
       \<lparr>deletedCount = 0, consecutiveEmptyAttempts = 0, scan_cycles = 1, snapshots_taken = 1,
        clicks = [\<lparr>clicked = ''1_2'', extracted_from = 1, latest_snapshot = 1\<rparr>]\<rparr>"
  by code_simp

text \<open>
  Apart from that: on a page whose first tweet has no More button and stays where it
  is, the \<^verbatim>\<open>continue\<close> skips even the scroll, and the loop is still running after
  any number of cycles.
\<close>

lemma stuck_feed_step:
  "deleteContent_loop stuck_feed (Suc fuel) st =
     deleteContent_loop stuck_feed fuel
       (st\<lparr>scan_cycles := scan_cycles st + 1, snapshots_taken := snapshots_taken st + 1,
            consecutiveEmptyAttempts := 0\<rparr>)"
proof -
  let ?tw = "\<lparr>uid = ''1_1'', tweet_text = no_button_line\<rparr>"
  have tws: "findTweetElements no_button_snapshot = Inr [?tw]"
    by code_simp
  have rp: "\<not> truthy (isRepost ?tw)"
    by code_simp
  have more: "findMoreButtonInTweet no_button_snapshot ?tw = Inr None"
    by code_simp
  have "try_block (stuck_feed (scan_cycles st)) no_button_snapshot n ?tw s = (Continue, s)" for n s
    using rp more by (simp add: try_block_def ordinary_path_def)
  then show ?thesis
    using tws
    by (simp add: deleteContent_loop.simps(2) Let_def stuck_feed_def resolving_cycle_def
                  after_try_def)
qed

lemma stuck_feed_runs_on:
  "\<exists>st'. deleteContent_loop stuck_feed fuel st = OutOfFuel st'"
proof (induction fuel arbitrary: st)
  case 0
  show ?case by simp
next
  case (Suc fuel)
  show ?case using Suc [of "st\<lparr>scan_cycles := scan_cycles st + 1,
      snapshots_taken := snapshots_taken st + 1, consecutiveEmptyAttempts := 0\<rparr>"]
    by (simp add: stuck_feed_step)
qed

lemma stuck_feed_never_returns:
  "(\<forall>i. action_fails (stuck_feed i))
   \<and> (\<forall>fuel. \<exists>st. deleteContent_loop stuck_feed fuel initial_state = OutOfFuel st)"
  using no_button_cycle_fails stuck_feed_runs_on by (simp add: stuck_feed_def)

section \<open>Handles and snapshots: verification\<close>

text \<open>
  In \<open>deleteContent\<close> every handle passed to \<open>click\<close> was extracted from the latest
  snapshot: the \<^verbatim>\<open>try\<close> block keeps the property, and so does the loop, whether the
  run returns, is rejected or is still going.
\<close>

lemma repost_path_fresh:
  assumes "fresh_clicks st"
  shows "fresh_clicks (snd (repost_path h s (snapshots_taken st) tw st))"
  using assms
  unfolding repost_path_def Let_def
  by (simp add: fresh_clicks_def log_click_def split: sum.split option.split)

lemma ordinary_path_fresh:
  assumes "fresh_clicks st"
  shows "fresh_clicks (snd (ordinary_path h s (snapshots_taken st) tw st))"
  using assms
  unfolding ordinary_path_def Let_def
  by (simp add: fresh_clicks_def log_click_def split: sum.split option.split)

lemma try_block_fresh:
  assumes "fresh_clicks st"
  shows "fresh_clicks (snd (try_block h s (snapshots_taken st) tw st))"
  using assms repost_path_fresh ordinary_path_fresh by (simp add: try_block_def)

lemma deleteContent_loop_fresh:
  "fresh_clicks st \<Longrightarrow> fresh_clicks (final_state (deleteContent_loop cyc fuel st))"
proof (induction fuel arbitrary: st)
  case 0
  then show ?case by simp
next
  case (Suc fuel)
  let ?h = "cyc (scan_cycles st)"
  let ?st0 = "st\<lparr>scan_cycles := scan_cycles st + 1\<rparr>"
  let ?st1 = "?st0\<lparr>snapshots_taken := snapshots_taken ?st0 + 1\<rparr>"
  have f1: "fresh_clicks ?st1" and f0: "fresh_clicks ?st0"
    using Suc.prems by (simp_all add: fresh_clicks_def)
  show ?case
  proof (cases "take_snapshot ?h 0")
    case (Inl e)
    then show ?thesis using f0 by (simp add: deleteContent_loop.simps(2) Let_def)
  next
    case (Inr snapshot)
    show ?thesis
    proof (cases "findTweetElements snapshot")
      case (Inl e)
      then show ?thesis using Inr f1 by (simp add: deleteContent_loop.simps(2) Let_def)
    next
      case tws: (Inr tweets)
      show ?thesis
      proof (cases tweets)
        case Nil
        let ?st2 = "?st1\<lparr>consecutiveEmptyAttempts := consecutiveEmptyAttempts ?st1 + 1\<rparr>"
        have f2: "fresh_clicks ?st2" using f1 by (simp add: fresh_clicks_def)
        from Suc.IH [OF f2] f2 show ?thesis
          using Inr tws Nil
          by (simp add: deleteContent_loop.simps(2) Let_def split: sum.split)
      next
        case (Cons tw others)
        let ?st2 = "?st1\<lparr>consecutiveEmptyAttempts := 0\<rparr>"
        let ?r = "try_block ?h snapshot (snapshots_taken ?st2) tw ?st2"
        have "fresh_clicks ?st2" using f1 by (simp add: fresh_clicks_def)
        then have fr: "fresh_clicks (snd ?r)" by (rule try_block_fresh)
        from Suc.IH [OF fr] fr show ?thesis
          using Inr tws Cons
          by (simp add: deleteContent_loop.simps(2) Let_def split: sum.split)
      qed
    qed
  qed
qed

lemma deleteContent_fresh:
  "fresh_clicks (final_state (deleteContent mcpTools fuel user contentType))"
proof -
  have "fresh_clicks initial_state" by (simp add: fresh_clicks_def initial_state_def)
  then show ?thesis
    using deleteContent_loop_fresh [of initial_state "cycles mcpTools" fuel]
    by (simp add: deleteContent_def Let_def split: sum.split)
qed

text \<open>The Playwright script keeps the same property through its third snapshot.\<close>

lemma repost_path_pw_fresh:
  assumes "fresh_clicks st"
  shows "fresh_clicks (snd (repost_path_pw h s (snapshots_taken st) tw st))"
  using assms
  unfolding repost_path_pw_def Let_def
  by (simp add: fresh_clicks_def log_click_def split: sum.split option.split)

lemma confirm_step_pw_fresh:
  assumes "fresh_clicks st"
  shows "fresh_clicks (snd (confirm_step_pw h st))"
  using assms
  unfolding confirm_step_pw_def Let_def
  by (simp add: fresh_clicks_def log_click_def split: sum.split option.split)

lemma ordinary_path_pw_fresh:
  assumes "fresh_clicks st"
  shows "fresh_clicks (snd (ordinary_path_pw h s (snapshots_taken st) tw st))"
proof -
  have step: "fresh_clicks (snd (confirm_step_pw h st'))" if "fresh_clicks st'" for st'
    using that by (rule confirm_step_pw_fresh)
  show ?thesis
    using assms
    unfolding ordinary_path_pw_def Let_def
    by (auto simp: fresh_clicks_def log_click_def intro!: step [unfolded fresh_clicks_def]
             split: sum.split option.split)
qed

lemma try_block_pw_fresh:
  assumes "fresh_clicks st"
  shows "fresh_clicks (snd (try_block_pw h s (snapshots_taken st) tw st))"
  using assms repost_path_pw_fresh ordinary_path_pw_fresh by (simp add: try_block_pw_def)

lemma deleteContent_loop_pw_fresh:
  "fresh_clicks st \<Longrightarrow> fresh_clicks (final_state (deleteContent_loop_pw cyc fuel st))"
proof (induction fuel arbitrary: st)
  case 0
  then show ?case by simp
next
  case (Suc fuel)
  let ?h = "cyc (scan_cycles st)"
  let ?st0 = "st\<lparr>scan_cycles := scan_cycles st + 1\<rparr>"
  let ?st1 = "?st0\<lparr>snapshots_taken := snapshots_taken ?st0 + 1\<rparr>"
  have f1: "fresh_clicks ?st1" and f0: "fresh_clicks ?st0"
    using Suc.prems by (simp_all add: fresh_clicks_def)
  show ?case
  proof (cases "take_snapshot ?h 0")
    case (Inl e)
    then show ?thesis using f0 by (simp add: deleteContent_loop_pw.simps(2) Let_def)
  next
    case (Inr snapshot)
    show ?thesis
    proof (cases "findTweetElements_pw snapshot")
      case (Inl e)
      then show ?thesis using Inr f1 by (simp add: deleteContent_loop_pw.simps(2) Let_def)
    next
      case tws: (Inr tweets)
      show ?thesis
      proof (cases tweets)
        case Nil
        let ?st2 = "?st1\<lparr>consecutiveEmptyAttempts := consecutiveEmptyAttempts ?st1 + 1\<rparr>"
        have f2: "fresh_clicks ?st2" using f1 by (simp add: fresh_clicks_def)
        from Suc.IH [OF f2] f2 show ?thesis
          using Inr tws Nil
          by (simp add: deleteContent_loop_pw.simps(2) Let_def split: sum.split)
      next
        case (Cons tw others)
        let ?st2 = "?st1\<lparr>consecutiveEmptyAttempts := 0\<rparr>"
        let ?r = "try_block_pw ?h snapshot (snapshots_taken ?st2) tw ?st2"
        have "fresh_clicks ?st2" using f1 by (simp add: fresh_clicks_def)
        then have fr: "fresh_clicks (snd ?r)" by (rule try_block_pw_fresh)
        from Suc.IH [OF fr] fr show ?thesis
          using Inr tws Cons
          by (simp add: deleteContent_loop_pw.simps(2) Let_def split: sum.split)
      qed
    qed
  qed
qed

text \<open>
  C5 fails for \<open>deleteTweets\<close>, the flow of the skill description, which loops over
  all tweets of one snapshot. On a page with two tweets the third click uses the
  handle of the second tweet, derived from snapshot 1, after snapshot 2 (the menu of
  the first tweet) has been captured.
\<close>

theorem deleteTweets_clicks_stale_handle:
  "deleteTweets more_button_of two_tweets_tab_host 2 ''POSTS'' =
     Returned
       \<lparr>tab_deletedCount = 2, tab_scan_cycles = 2, tab_snapshots_taken = 4,
        tab_clicks =
          [(Some ''4_more'', 1, 1), (Some ''2_1'', 2, 2),
           (Some ''8_more'', 1, 2), (Some ''2_1'', 3, 3)]\<rparr>"
  by code_simp

section \<open>The confirmation step: verification\<close>

text \<open>
  C3 fails for the Playwright script. The post is found, its menu opens and Delete is
  clicked, but the next snapshot holds no confirmation button: nothing is confirmed
  (the log holds two clicks), and the run still returns \<open>deletedCount = 1\<close>.
\<close>

theorem deleteContent_pw_counts_unconfirmed:
  "findConfirmButton pw_no_dialog_snapshot = Inr None
   \<and> deleteContent_pw pw_unconfirmed_host 4 ''alice'' ''POSTS'' =
       Returned
         \<lparr>deletedCount = 1, consecutiveEmptyAttempts = 3, scan_cycles = 4, snapshots_taken = 6,
          clicks = [\<lparr>clicked = ''e2'', extracted_from = 1, latest_snapshot = 1\<rparr>,
                    \<lparr>clicked = ''e3'', extracted_from = 2, latest_snapshot = 2\<rparr>]\<rparr>"
  by code_simp

text \<open>
  In the Chrome DevTools script the counter moves only at the end of a branch, after
  every call of the branch has resolved and every control has been found.
\<close>

lemma ordinary_path_counts_only_at_end:
  assumes "deletedCount (snd (ordinary_path h s n tw st)) \<noteq> deletedCount st"
  shows "ordinary_succeeds h s tw"
  using assms
  unfolding ordinary_path_def ordinary_succeeds_def log_click_def Let_def
  by (simp split: sum.split_asm option.split_asm)

section \<open>Snapshot interpreter: verification\<close>

text \<open>
  C6 fails for the Chrome DevTools script: a content that is truthy and not a string,
  here the list of content blocks of a tool result, has no \<^verbatim>\<open>split\<close> method, and
  \<open>findTweetElements\<close> throws.
\<close>

theorem findTweetElements_throws_on_content_blocks:
  "findTweetElements content_blocks_snapshot = Inl TypeError"
  by code_simp

text \<open>It returns a list whenever the content is absent, falsy or a string.\<close>

lemma findTweetElements_returns:
  assumes "get_content snapshot = Inr c" and "\<not> truthy c \<or> (\<exists>s. c = JStr s)"
  shows "\<exists>tweets. findTweetElements snapshot = Inr tweets"
  using assms by (auto simp: findTweetElements_def content_lines_def)

text \<open>
  The Playwright script tests the type of the content, and returns a list for every
  snapshot other than \<^verbatim>\<open>undefined\<close> and \<^verbatim>\<open>null\<close>.
\<close>

lemma content_lines_pw_returns:
  assumes "snapshot \<noteq> JUndefined" and "snapshot \<noteq> JNull"
  shows "\<exists>lines. content_lines_pw snapshot = Inr lines"
proof -
  from assms obtain c where "get_content snapshot = Inr c"
    by (cases snapshot) simp_all
  then show ?thesis
    by (cases "js_or (js_or c snapshot) (JStr [])") (simp_all add: content_lines_pw_def)
qed

lemma findTweetElements_pw_returns:
  assumes "snapshot \<noteq> JUndefined" and "snapshot \<noteq> JNull"
  shows "\<exists>tweets. findTweetElements_pw snapshot = Inr tweets"
  using content_lines_pw_returns [OF assms] by (auto simp: findTweetElements_pw_def)

lemma findTweetElements_pw_content_blocks:
  "findTweetElements_pw content_blocks_snapshot = Inr []"
  by code_simp

text \<open>
  The search of \<open>findMoreButtonInTweet\<close> starts at the first line that holds the uid
  of the tweet and ends at the first container line after it that does not.
\<close>

lemma more_button_loop_skips:
  assumes "\<forall>l \<in> set before. \<not> str_includes l u"
  shows "more_button_loop u False (before @ rest) = more_button_loop u False rest"
  using assms by (induction before) simp_all

lemma more_button_loop_stops:
  assumes "str_includes next_line ''article''" and "\<not> str_includes next_line u"
  shows "more_button_loop u True (inside @ next_line # rest)
           = more_button_loop u True (inside @ [next_line])"
  using assms
proof (induction inside)
  case Nil
  then show ?case by (simp add: Let_def split: option.split)
next
  case (Cons a inside)
  then show ?case by (auto simp: Let_def split: option.split)
qed

text \<open>
  C4 fails: the start of the search is found by \<^verbatim>\<open>line.includes(tweet.uid)\<close>, and
  the uid of the second tweet, \<open>8\<close>, occurs in the text of the first. The lookup for
  the second tweet returns \<open>5\<close>, the More button of the first.
\<close>

theorem findMoreButtonInTweet_returns_other_control:
  \<open>findTweetElements two_tweets_snapshot =
     Inr [\<lparr>uid = ''4'', tweet_text = ''article "Top 8 tips" uid="4"''\<rparr>,
          \<lparr>uid = ''8'', tweet_text = ''article "hello" uid="8"''\<rparr>]
   \<and> findMoreButtonInTweet two_tweets_snapshot
        \<lparr>uid = ''4'', tweet_text = ''article "Top 8 tips" uid="4"''\<rparr> = Inr (Some ''5'')
   \<and> findMoreButtonInTweet two_tweets_snapshot
        \<lparr>uid = ''8'', tweet_text = ''article "hello" uid="8"''\<rparr> = Inr (Some ''5'')\<close>
  by code_simp

section \<open>Followers: verification\<close>

lemma dedupe_distinct:
  "distinct (map username (dedupe seen fs)) \<and> set (map username (dedupe seen fs)) \<inter> seen = {}"
proof (induction fs arbitrary: seen)
  case Nil
  then show ?case by simp
next
  case (Cons f fs)
  show ?case
  proof (cases "username f \<in> seen")
    case True
    then show ?thesis using Cons.IH [of seen] by simp
  next
    case False
    then show ?thesis using Cons.IH [of "insert (username f) seen"] by auto
  qed
qed

lemma follower_loop_invariant:
  assumes "distinct (checked st)" and "set (checked st) = processedUsernames st"
    and "totalChecked st = length (checked st)"
  shows "distinct (checked (final_state (follower_loop followers_at fuel st)))
         \<and> set (checked (final_state (follower_loop followers_at fuel st)))
             = processedUsernames (final_state (follower_loop followers_at fuel st))
         \<and> totalChecked (final_state (follower_loop followers_at fuel st))
             = length (checked (final_state (follower_loop followers_at fuel st)))"
  using assms
proof (induction fuel arbitrary: st)
  case 0
  then show ?case by simp
next
  case (Suc fuel)
  let ?st0 = "st\<lparr>scans := scans st + 1\<rparr>"
  let ?new = "filter (\<lambda>f. username f \<notin> processedUsernames ?st0) (followers_at (scans st))"
  show ?case
  proof (cases ?new)
    case Nil
    let ?st1 = "?st0\<lparr>consecutiveEmpty := consecutiveEmpty ?st0 + 1\<rparr>"
    have "distinct (checked ?st1)" "set (checked ?st1) = processedUsernames ?st1"
      "totalChecked ?st1 = length (checked ?st1)"
      using Suc.prems by simp_all
    from Suc.IH [OF this] Suc.prems show ?thesis
      using Nil by (simp add: follower_loop.simps(2) Let_def)
  next
    case (Cons follower others)
    let ?st1 = "?st0\<lparr>consecutiveEmpty := 0,
                    processedUsernames := insert (username follower) (processedUsernames ?st0),
                    totalChecked := totalChecked ?st0 + 1,
                    checked := checked ?st0 @ [username follower]\<rparr>"
    have "follower \<in> set ?new" using Cons by simp
    then have new: "username follower \<notin> processedUsernames st" by simp
    have "distinct (checked ?st1)" "set (checked ?st1) = processedUsernames ?st1"
      "totalChecked ?st1 = length (checked ?st1)"
      using Suc.prems new by auto
    from Suc.IH [OF this] show ?thesis
      using Cons by (simp add: follower_loop.simps(2) Let_def)
  qed
qed

text \<open>
  C10, as amended. After any number of iterations of the loop of either version,
  finished or not, and whatever the page holds, no username has been checked twice,
  the usernames checked are exactly those in \<open>processedUsernames\<close>, and \<open>totalChecked\<close>
  is their number; and the list \<open>getFollowerElements\<close> of the popup version returns
  holds every username at most once.
\<close>

theorem follower_checked_at_most_once:
  "checked_once (final_state (follower_run_block page fuel))
   \<and> checked_once (final_state (follower_run_popup page fuel))
   \<and> distinct (map username (getFollowerElements_popup cells))"
  using follower_loop_invariant
      [of follower_initial_state "\<lambda>i. getFollowerElements_block (page i)" fuel]
    follower_loop_invariant
      [of follower_initial_state "\<lambda>i. getFollowerElements_popup (page i)" fuel]
    dedupe_distinct [of "{}" "follower_cells_popup cells"]
  by (simp add: follower_initial_state_def getFollowerElements_popup_def checked_once_def
                follower_run_block_def follower_run_popup_def)

text \<open>
  C10 as stated fails for \<^verbatim>\<open>src/remove-inactive-followers.js\<close>: its
  \<open>getFollowerElements\<close> returns the list as collected, and two cells that link to the
  same profile give two entries with the same username.
\<close>

theorem getFollowerElements_block_duplicate_counterexample:
  "map username (getFollowerElements_block two_cells_one_user) = [''alice'', ''alice'']"
  by code_simp

text \<open>
  On the same cells the popup version returns one entry, and the loop of the block
  version still checks the username once.
\<close>

lemma getFollowerElements_popup_two_cells:
  "map username (getFollowerElements_popup two_cells_one_user) = [''alice'']"
  by code_simp

lemma follower_run_block_two_cells:
  "follower_run_block (\<lambda>i. two_cells_one_user) 4
     = Returned \<lparr>processedUsernames = {''alice''}, consecutiveEmpty = 3, totalChecked = 1,
                 checked = [''alice''], scans = 4\<rparr>"
  by code_simp

text \<open>The block version also takes \<^verbatim>\<open>/i\<close> for a follower; the popup version does not.\<close>

lemma getFollowerElements_reserved_i:
  "map username (getFollowerElements_block [\<lparr>cell_id = 0, userLink = Some ''/i''\<rparr>]) = [''i'']
   \<and> getFollowerElements_popup [\<lparr>cell_id = 0, userLink = Some ''/i''\<rparr>] = []"
  by code_simp

end
